theory Spec2Isabelle
  imports Complex_Main
begin

section \<open>JSON values, exceptions and the browser's key/value storage\<close>

text \<open>
  The history store of \<^verbatim>\<open>src/lib/utils\<close> keeps, under one key per record kind, the JSON
  text of an array of records. The platform pieces it calls (\<^verbatim>\<open>JSON.parse\<close>,
  \<^verbatim>\<open>JSON.stringify\<close>, \<^verbatim>\<open>localStorage\<close>, the zod schema combinators) are modelled
  here by their documented behaviour; the functions of the repository follow in the
  next sections, statement by statement.
\<close>

text \<open>
  A JavaScript number: a finite value, or one of the three that are not. \<^verbatim>\<open>JSON.parse\<close>
  reads a numeral beyond the range of a double, such as \<^verbatim>\<open>1e999\<close>, as \<^verbatim>\<open>Infinity\<close>.
\<close>

datatype number = Finite rat | Infinity | MinusInfinity | NaN

fun is_finite :: "number \<Rightarrow> bool" where
  "is_finite (Finite q) = True"
| "is_finite Infinity = False"
| "is_finite MinusInfinity = False"
| "is_finite NaN = False"

text \<open>
  The JavaScript values of JSON shape. A value that may also be \<^verbatim>\<open>undefined\<close> is a
  \<open>json option\<close>; the keys of an object are distinct.
\<close>

datatype json =
    JNull
  | JBool bool
  | JNum number
  | JStr string
  | JArr "json list"
  | JObj "(string \<times> json) list"

text \<open>
  A thrown JavaScript value. The first four are instances of \<^verbatim>\<open>Error\<close> and carry a
  message; a \<^verbatim>\<open>ProgressEvent\<close> (what a failing \<^verbatim>\<open>FileReader\<close> rejects with) is not.
  \<open>message_or err d\<close> is \<^verbatim>\<open>err instanceof Error ? err.message : d\<close>.
\<close>

datatype exn =
    Error string
  | SyntaxError string
  | TypeError string
  | DOMException string
  | ProgressEvent

fun message_or :: "exn \<Rightarrow> string \<Rightarrow> string" where
  "message_or (Error m) d = m"
| "message_or (SyntaxError m) d = m"
| "message_or (TypeError m) d = m"
| "message_or (DOMException m) d = m"
| "message_or ProgressEvent d = d"

text \<open>
  The text held by a storage entry. \<open>Stringified j\<close> is a text that \<^verbatim>\<open>JSON.parse\<close>
  reads as the value \<open>j\<close>; \<open>Unparseable s\<close> is the string \<open>s\<close> when it is not JSON
  text. The empty string, on which \<^verbatim>\<open>JSON.parse\<close> throws, is \<open>Unparseable []\<close>.

  \<^verbatim>\<open>JSON.stringify\<close> has no text for a number that is not finite and writes
  \<^verbatim>\<open>null\<close> in its place: \<open>written j\<close> is the value its text for \<open>j\<close> reads back as.
\<close>

datatype raw_text = Stringified json | Unparseable string

definition JSON_parse :: "raw_text \<Rightarrow> exn + json" where
  "JSON_parse t =
     (case t of
        Stringified j \<Rightarrow> Inr j
      | Unparseable s \<Rightarrow> Inl (SyntaxError ''Unexpected token''))"

primrec written :: "json \<Rightarrow> json" where
  "written JNull = JNull"
| "written (JBool b) = JBool b"
| "written (JNum n) = (if is_finite n then JNum n else JNull)"
| "written (JStr s) = JStr s"
| "written (JArr js) = JArr (map written js)"
| "written (JObj obj) = JObj (map (map_prod id written) obj)"

definition JSON_stringify :: "json \<Rightarrow> raw_text" where
  "JSON_stringify j = Stringified (written j)"

text \<open>
  Truthiness of a value, and the property access \<^verbatim>\<open>v.name\<close>: it throws on
  \<^verbatim>\<open>undefined\<close> and \<^verbatim>\<open>null\<close>, reads the key of an object, and gives \<^verbatim>\<open>undefined\<close>
  on the other values for the names used here (none is a property of a string, a
  number, a boolean or an array).
\<close>

fun truthy :: "json option \<Rightarrow> bool" where
  "truthy None = False"
| "truthy (Some JNull) = False"
| "truthy (Some (JBool b)) = b"
| "truthy (Some (JNum n)) = (n \<noteq> Finite 0 \<and> n \<noteq> NaN)"
| "truthy (Some (JStr s)) = (s \<noteq> [])"
| "truthy (Some (JArr js)) = True"
| "truthy (Some (JObj obj)) = True"

fun property :: "json option \<Rightarrow> string \<Rightarrow> exn + json option" where
  "property None name = Inl (TypeError ''Cannot read properties of undefined'')"
| "property (Some JNull) name = Inl (TypeError ''Cannot read properties of null'')"
| "property (Some (JObj obj)) name = Inr (map_of obj name)"
| "property (Some j) name = Inr None"

text \<open>
  \<^verbatim>\<open>localStorage\<close>: the entries, and the browser's decision whether a write is
  accepted (\<^verbatim>\<open>setItem\<close> throws a \<^verbatim>\<open>QuotaExceededError\<close> when it is not). The decision
  may depend on what is stored already. \<^verbatim>\<open>getItem\<close> and \<^verbatim>\<open>removeItem\<close> do not throw.
\<close>

record localStorage =
  entries :: "string \<rightharpoonup> raw_text"
  quota :: "(string \<rightharpoonup> raw_text) \<Rightarrow> string \<Rightarrow> raw_text \<Rightarrow> bool"

definition getItem :: "string \<Rightarrow> localStorage \<Rightarrow> raw_text option" where
  "getItem key st = entries st key"

definition setItem :: "string \<Rightarrow> raw_text \<Rightarrow> localStorage \<Rightarrow> exn + localStorage" where
  "setItem key v st =
     (if quota st (entries st) key v
      then Inr (st\<lparr>entries := (entries st)(key \<mapsto> v)\<rparr>)
      else Inl (DOMException ''QuotaExceededError''))"

definition removeItem :: "string \<Rightarrow> localStorage \<Rightarrow> localStorage" where
  "removeItem key st = st\<lparr>entries := (entries st)(key := None)\<rparr>"

text \<open>
  \<^verbatim>\<open>!storedData\<close> for a value of type \<^verbatim>\<open>string | null\<close>: true for \<^verbatim>\<open>null\<close> and for the
  empty string.
\<close>

definition falsy_text :: "raw_text option \<Rightarrow> bool" where
  "falsy_text t = (case t of None \<Rightarrow> True | Some v \<Rightarrow> v = Unparseable [])"

subsection \<open>The zod combinators the validators are built from\<close>

text \<open>
  A schema's \<^verbatim>\<open>safeParse\<close> returns the typed data or fails; it never throws.
  \<^verbatim>\<open>z.string()\<close> accepts strings only; \<^verbatim>\<open>z.number()\<close> accepts every number but
  \<^verbatim>\<open>NaN\<close>, the infinite ones included, as no \<^verbatim>\<open>.finite()\<close> is asked for (a field that
  is missing is \<^verbatim>\<open>undefined\<close> and fails both). The format checks behind \<^verbatim>\<open>.url()\<close> and
  \<^verbatim>\<open>.datetime()\<close> belong to the library and are parameters.
  \<^verbatim>\<open>z.array(s)\<close> accepts an array all of whose elements \<open>s\<close> accepts.
\<close>

definition z_string :: "json \<Rightarrow> string option" where
  "z_string j = (case j of JStr s \<Rightarrow> Some s | _ \<Rightarrow> None)"

definition z_string_check :: "(string \<Rightarrow> bool) \<Rightarrow> json \<Rightarrow> string option" where
  "z_string_check check j =
     (case j of JStr s \<Rightarrow> (if check s then Some s else None) | _ \<Rightarrow> None)"

definition z_number :: "json \<Rightarrow> number option" where
  "z_number j = (case j of JNum n \<Rightarrow> (if n = NaN then None else Some n) | _ \<Rightarrow> None)"

definition z_field :: "(string \<times> json) list \<Rightarrow> string \<Rightarrow> (json \<Rightarrow> 'a option) \<Rightarrow> 'a option" where
  "z_field obj name schema =
     (case map_of obj name of None \<Rightarrow> None | Some v \<Rightarrow> schema v)"

definition z_array :: "(json \<Rightarrow> 'a option) \<Rightarrow> json \<Rightarrow> 'a list option" where
  "z_array schema j =
     (case j of JArr js \<Rightarrow> those (map schema js) | _ \<Rightarrow> None)"

section \<open>The validators and record types of the store\<close>

definition STORAGE_KEY :: string where
  "STORAGE_KEY = ''magicapi_screenshot''"

definition AGE_DETECTION_STORAGE_KEY :: string where
  "AGE_DETECTION_STORAGE_KEY = ''magicapi_age_detection''"

record ScreenshotItem =
  input :: string
  imageData :: string
  createdAt :: string

definition ScreenshotItem_schema ::
  "(string \<Rightarrow> bool) \<Rightarrow> (string \<Rightarrow> bool) \<Rightarrow> json \<Rightarrow> ScreenshotItem option" where
  "ScreenshotItem_schema is_url is_datetime j =
     (case j of
        JObj obj \<Rightarrow>
          (case z_field obj ''input'' (z_string_check is_url) of
             None \<Rightarrow> None
           | Some i \<Rightarrow>
               (case z_field obj ''imageData'' z_string of
                  None \<Rightarrow> None
                | Some d \<Rightarrow>
                    (case z_field obj ''createdAt'' (z_string_check is_datetime) of
                       None \<Rightarrow> None
                     | Some c \<Rightarrow> Some \<lparr>input = i, imageData = d, createdAt = c\<rparr>)))
      | _ \<Rightarrow> None)"

definition screenshotValidator ::
  "(string \<Rightarrow> bool) \<Rightarrow> (string \<Rightarrow> bool) \<Rightarrow> json \<Rightarrow> ScreenshotItem list option" where
  "screenshotValidator is_url is_datetime = z_array (ScreenshotItem_schema is_url is_datetime)"

text \<open>The JSON form of a screenshot record: what \<^verbatim>\<open>JSON.stringify\<close> sees.\<close>

definition ScreenshotItem_json :: "ScreenshotItem \<Rightarrow> json" where
  "ScreenshotItem_json r =
     JObj [(''input'', JStr (input r)), (''imageData'', JStr (imageData r)),
           (''createdAt'', JStr (createdAt r))]"

section \<open>The persisted history store\<close>

text \<open>
  \<^verbatim>\<open>getFromStorage\<close>: both the \<^verbatim>\<open>catch\<close> branch (\<^verbatim>\<open>JSON.parse\<close> threw) and a failed
  validation remove the entry and return the empty list.
\<close>

definition getFromStorage ::
  "string \<Rightarrow> (json \<Rightarrow> 'a list option) \<Rightarrow> localStorage \<Rightarrow> 'a list \<times> localStorage" where
  "getFromStorage key validator st =
     (let storedData = getItem key st in
      if falsy_text storedData then ([], st)
      else
        (case storedData of
           None \<Rightarrow> ([], st)
         | Some txt \<Rightarrow>
             (case JSON_parse txt of
                Inl err \<Rightarrow> ([], removeItem key st)
              | Inr parsedData \<Rightarrow>
                  (case validator parsedData of
                     Some data \<Rightarrow> (data, st)
                   | None \<Rightarrow> ([], removeItem key st)))))"

text \<open>
  \<^verbatim>\<open>saveToStorage\<close>. The items are values of type \<open>'a\<close>; \<open>toJSON\<close> gives the JSON
  form of one, which is what \<^verbatim>\<open>JSON.stringify(newItems)\<close> serialises. When
  \<^verbatim>\<open>setItem\<close> throws, the \<^verbatim>\<open>catch\<close> branch returns \<^verbatim>\<open>[item]\<close>; the storage is then as
  the read left it.
\<close>

definition saveToStorage ::
  "('a \<Rightarrow> json) \<Rightarrow> string \<Rightarrow> 'a \<Rightarrow> (json \<Rightarrow> 'a list option) \<Rightarrow> localStorage
     \<Rightarrow> 'a list \<times> localStorage" where
  "saveToStorage toJSON key item validator st =
     (let (existingItems, st1) = getFromStorage key validator st;
          newItems = item # existingItems
      in case setItem key (JSON_stringify (JArr (map toJSON newItems))) st1 of
           Inr st2 \<Rightarrow> (newItems, st2)
         | Inl err \<Rightarrow> ([item], st1))"

text \<open>
  \<^verbatim>\<open>Array.prototype.slice\<close>: a negative index counts from the end, and both ends are
  clamped to the array.
\<close>

definition relative_index :: "int \<Rightarrow> nat \<Rightarrow> nat" where
  "relative_index i len = (if i < 0 then nat (max (int len + i) 0) else min (nat i) len)"

definition slice :: "'a list \<Rightarrow> int \<Rightarrow> int \<Rightarrow> 'a list" where
  "slice xs start fin =
     (let k = relative_index start (length xs);
          final = relative_index fin (length xs)
      in take (final - k) (drop k xs))"

definition slice_from :: "'a list \<Rightarrow> int \<Rightarrow> 'a list" where
  "slice_from xs start = drop (relative_index start (length xs)) xs"

definition removeFromStorage ::
  "('a \<Rightarrow> json) \<Rightarrow> string \<Rightarrow> int \<Rightarrow> (json \<Rightarrow> 'a list option) \<Rightarrow> localStorage
     \<Rightarrow> 'a list \<times> localStorage" where
  "removeFromStorage toJSON key index validator st =
     (let (items, st1) = getFromStorage key validator st;
          newItems = slice items 0 index @ slice_from items (index + 1)
      in case setItem key (JSON_stringify (JArr (map toJSON newItems))) st1 of
           Inr st2 \<Rightarrow> (newItems, st2)
         | Inl err \<Rightarrow> getFromStorage key validator st1)"

text \<open>
  A record is schema-valid when the element schema accepts it, as the value it is in
  memory, and returns the record itself. It is written without loss when the text
  \<^verbatim>\<open>JSON.stringify\<close> writes for it reads back as the same value.
\<close>

definition schema_valid :: "('a \<Rightarrow> json) \<Rightarrow> (json \<Rightarrow> 'a option) \<Rightarrow> 'a \<Rightarrow> bool" where
  "schema_valid toJSON schema r = (schema (toJSON r) = Some r)"

definition lossless :: "('a \<Rightarrow> json) \<Rightarrow> 'a \<Rightarrow> bool" where
  "lossless toJSON r = (written (toJSON r) = toJSON r)"

section \<open>The age-detection records\<close>

text \<open>
  The types declare \<^verbatim>\<open>age\<close> a string and \<^verbatim>\<open>predictTime\<close> a number, but
  \<^verbatim>\<open>detectAge\<close> fills both from the response body through an unchecked cast: in memory
  each holds whatever value the body held, or none. What the validator returns has a
  string and a number there.
\<close>

record AgeDetectionResult =
  age :: "json option"
  predictTime :: "json option"
  imageData :: string

record AgeDetectionHistoryItem =
  age :: "json option"
  predictTime :: "json option"
  imageData :: string
  createdAt :: string

definition AgeDetectionHistoryItem_schema ::
  "(string \<Rightarrow> bool) \<Rightarrow> json \<Rightarrow> AgeDetectionHistoryItem option" where
  "AgeDetectionHistoryItem_schema is_datetime j =
     (case j of
        JObj obj \<Rightarrow>
          (case z_field obj ''age'' z_string of
             None \<Rightarrow> None
           | Some a \<Rightarrow>
               (case z_field obj ''predictTime'' z_number of
                  None \<Rightarrow> None
                | Some p \<Rightarrow>
                    (case z_field obj ''imageData'' z_string of
                       None \<Rightarrow> None
                     | Some d \<Rightarrow>
                         (case z_field obj ''createdAt'' (z_string_check is_datetime) of
                            None \<Rightarrow> None
                          | Some c \<Rightarrow>
                              Some \<lparr>AgeDetectionHistoryItem.age = Some (JStr a),
                                    predictTime = Some (JNum p),
                                    imageData = d, createdAt = c\<rparr>))))
      | _ \<Rightarrow> None)"

definition ageDetectionResultValidator ::
  "(string \<Rightarrow> bool) \<Rightarrow> json \<Rightarrow> AgeDetectionHistoryItem list option" where
  "ageDetectionResultValidator is_datetime = z_array (AgeDetectionHistoryItem_schema is_datetime)"

text \<open>
  The value of a history item: an object with the keys whose value is not
  \<^verbatim>\<open>undefined\<close> (the validator and \<^verbatim>\<open>JSON.stringify\<close> both take an undefined
  property for a missing one).
\<close>

definition json_field :: "string \<Rightarrow> json option \<Rightarrow> (string \<times> json) list" where
  "json_field name v = (case v of None \<Rightarrow> [] | Some j \<Rightarrow> [(name, j)])"

definition AgeDetectionHistoryItem_json :: "AgeDetectionHistoryItem \<Rightarrow> json" where
  "AgeDetectionHistoryItem_json r =
     JObj (json_field ''age'' (AgeDetectionHistoryItem.age r) @
           json_field ''predictTime'' (AgeDetectionHistoryItem.predictTime r) @
           [(''imageData'', JStr (AgeDetectionHistoryItem.imageData r)),
            (''createdAt'', JStr (AgeDetectionHistoryItem.createdAt r))])"

section \<open>The remote capability client\<close>

text \<open>
  \<^verbatim>\<open>fetch\<close> is the network: a function from the request to the response, or to the
  exception the promise rejects with. A response carries its HTTP status and what
  \<^verbatim>\<open>response.json()\<close> (or \<^verbatim>\<open>response.blob()\<close>) resolves to; \<^verbatim>\<open>response.ok\<close> is true
  for the statuses 200 to 299. \<open>API_URL\<close> and \<open>API_KEY\<close> come from
  \<^verbatim>\<open>@/lib/constants\<close> and are parameters.
\<close>

type_synonym blob = string

datatype request_body = NoBody | FormData "(string \<times> blob) list" | JsonBody raw_text

record request =
  url :: string
  "method" :: string
  headers :: "(string \<times> string) list"
  body :: request_body

record 'b response =
  status :: nat
  statusText :: string
  payload :: "exn + 'b"

definition ok :: "'b response \<Rightarrow> bool" where
  "ok r = (200 \<le> response.status r \<and> response.status r \<le> 299)"

text \<open>A number in a template literal: its decimal digits.\<close>

definition digit :: "nat \<Rightarrow> char" where
  "digit n = ''0123456789'' ! n"

function decimal :: "nat \<Rightarrow> string" where
  "decimal n = (if n < 10 then [digit n] else decimal (n div 10) @ [digit (n mod 10)])"
  by pat_completeness auto
termination
  by (relation "measure (\<lambda>n. n)") auto

declare decimal.simps [simp del]

text \<open>
  \<^verbatim>\<open>!v\<close> for a value of type \<^verbatim>\<open>string | null | undefined\<close>: the missing value and
  the empty string are falsy.
\<close>

definition falsy_string :: "string option \<Rightarrow> bool" where
  "falsy_string v = (case v of None \<Rightarrow> True | Some s \<Rightarrow> s = [])"

record UploadResponse =
  status :: string
  result :: "string option"

definition upload_request :: "string \<Rightarrow> string \<Rightarrow> blob \<Rightarrow> request" where
  "upload_request API_URL API_KEY file =
     \<lparr>url = API_URL @ ''/api/v1/capix/faceswap/upload/'', method = ''POST'',
      headers = [(''accept'', ''application/json''), (''x-magicapi-key'', API_KEY)],
      body = FormData [(''file1'', file)]\<rparr>"

text \<open>
  \<^verbatim>\<open>uploadImage\<close>. The last test is \<^verbatim>\<open>data.status !== "OK" || !data.result\<close>; the
  result is returned only where it is present.
\<close>

definition uploadImage ::
  "string \<Rightarrow> string \<Rightarrow> (request \<Rightarrow> exn + UploadResponse response) \<Rightarrow> blob \<Rightarrow> exn + string" where
  "uploadImage API_URL API_KEY fetch file =
     (case fetch (upload_request API_URL API_KEY file) of
        Inl err \<Rightarrow> Inl err
      | Inr response \<Rightarrow>
          if \<not> ok response
          then Inl (Error (''Upload failed: '' @ decimal (response.status response)))
          else
            (case payload response of
               Inl err \<Rightarrow> Inl err
             | Inr data \<Rightarrow>
                 if UploadResponse.status data \<noteq> ''OK'' \<or> falsy_string (result data)
                 then Inl (Error ''Upload failed: Invalid response'')
                 else
                   (case result data of
                      Some r \<Rightarrow> Inr r
                    | None \<Rightarrow> Inl (Error ''Upload failed: Invalid response''))))"

definition detection_request :: "string \<Rightarrow> string \<Rightarrow> string \<Rightarrow> request" where
  "detection_request API_URL API_KEY imageUrl =
     \<lparr>url = API_URL @ ''/api/v1/magicapi/age-detector/predictions'', method = ''POST'',
      headers = [(''x-magicapi-key'', API_KEY), (''content-type'', ''application/json'')],
      body = JsonBody (JSON_stringify (JObj [(''input'', JObj [(''image'', JStr imageUrl)])]))\<rparr>"

text \<open>
  The message of \<^verbatim>\<open>new Error(v || d)\<close> for a string \<open>d\<close>: a truthy \<open>v\<close> is converted
  to a string, which for a string is the string itself; \<open>ToString\<close> is the platform's
  conversion of the other values.
\<close>

definition or_else :: "(json \<Rightarrow> string) \<Rightarrow> json option \<Rightarrow> string \<Rightarrow> string" where
  "or_else ToString v d =
     (if truthy v
      then (case v of Some (JStr s) \<Rightarrow> s | Some j \<Rightarrow> ToString j | None \<Rightarrow> d)
      else d)"

text \<open>
  \<^verbatim>\<open>detectAge\<close>, a closure over the page's \<^verbatim>\<open>imageData\<close> (here \<open>image_data\<close>). The
  body is \<^verbatim>\<open>(await response.json()) as AgeDetectionResponse\<close>: any JSON value, which
  the cast does not check. The test on it is
  \<^verbatim>\<open>data.status !== "succeeded" || data.error\<close>, the message thrown there is
  \<^verbatim>\<open>data.error || "Detection failed"\<close>, and the result reads \<^verbatim>\<open>data.output\<close> and
  \<^verbatim>\<open>data.metrics.predict_time\<close>, which throws when \<^verbatim>\<open>metrics\<close> is missing or null.
\<close>

definition detectAge ::
  "string \<Rightarrow> string \<Rightarrow> (request \<Rightarrow> exn + json response) \<Rightarrow> (json \<Rightarrow> string) \<Rightarrow> string option
     \<Rightarrow> string \<Rightarrow> exn + AgeDetectionResult" where
  "detectAge API_URL API_KEY fetch ToString image_data imageUrl =
     (case fetch (detection_request API_URL API_KEY imageUrl) of
        Inl err \<Rightarrow> Inl err
      | Inr response \<Rightarrow>
          if \<not> ok response
          then Inl (Error (''Detection failed: '' @ decimal (response.status response)))
          else
            (case payload response of
               Inl err \<Rightarrow> Inl err
             | Inr data \<Rightarrow>
                 (case property (Some data) ''status'' of
                    Inl err \<Rightarrow> Inl err
                  | Inr data_status \<Rightarrow>
                      (case property (Some data) ''error'' of
                         Inl err \<Rightarrow> Inl err
                       | Inr data_error \<Rightarrow>
                           if data_status \<noteq> Some (JStr ''succeeded'') \<or> truthy data_error
                           then Inl (Error (or_else ToString data_error ''Detection failed''))
                           else
                             (case image_data of
                                None \<Rightarrow> Inl (Error ''Image data is missing'')
                              | Some d \<Rightarrow>
                                  if d = [] then Inl (Error ''Image data is missing'')
                                  else
                                    (case property (Some data) ''output'' of
                                       Inl err \<Rightarrow> Inl err
                                     | Inr data_output \<Rightarrow>
                                         (case property (Some data) ''metrics'' of
                                            Inl err \<Rightarrow> Inl err
                                          | Inr data_metrics \<Rightarrow>
                                              (case property data_metrics ''predict_time'' of
                                                 Inl err \<Rightarrow> Inl err
                                               | Inr predict_time \<Rightarrow>
                                                   Inr \<lparr>AgeDetectionResult.age = data_output,
                                                        predictTime = predict_time,
                                                        imageData = d\<rparr>))))))))"

section \<open>The feature orchestrators\<close>

text \<open>
  A page is a React component; its state variables form a record and a callback is a
  function from the state (and the storage) to the state after all its \<^verbatim>\<open>set...\<close>
  calls. \<open>now\<close> is \<^verbatim>\<open>new Date().toISOString()\<close> at the moment of the call.
\<close>

subsection \<open>Age detection\<close>

datatype ProcessingState = idle | uploading | processing | success | error

record AgeDetectionPage =
  "file" :: "blob option"
  imageData :: "string option"
  processingState :: ProcessingState
  result :: "AgeDetectionResult option"
  error :: "string option"
  uploadedImageUrl :: "string option"
  history :: "AgeDetectionHistoryItem list"

text \<open>The \<^verbatim>\<open>catch\<close> branch of \<^verbatim>\<open>processImage\<close>.\<close>

definition processImage_catch :: "exn \<Rightarrow> AgeDetectionPage \<Rightarrow> AgeDetectionPage" where
  "processImage_catch err page =
     page\<lparr>AgeDetectionPage.error := Some (message_or err ''Unknown error''),
          processingState := ProcessingState.error\<rparr>"

text \<open>
  The block \<^verbatim>\<open>let imageUrl = uploadedImageUrl; if (!imageUrl) { ... }\<close>: the reference
  of an earlier upload is reused, otherwise the file is uploaded.
\<close>

definition processImage_upload ::
  "string \<Rightarrow> string \<Rightarrow> (request \<Rightarrow> exn + UploadResponse response) \<Rightarrow> blob \<Rightarrow> AgeDetectionPage
     \<Rightarrow> exn \<times> AgeDetectionPage + string \<times> AgeDetectionPage" where
  "processImage_upload API_URL API_KEY fetch f page =
     (let upload =
            (case uploadImage API_URL API_KEY fetch f of
               Inl err \<Rightarrow> Inl (err, page\<lparr>processingState := uploading\<rparr>)
             | Inr u \<Rightarrow> Inr (u, page\<lparr>processingState := uploading, uploadedImageUrl := Some u\<rparr>))
      in case uploadedImageUrl page of
           None \<Rightarrow> upload
         | Some imageUrl \<Rightarrow> if imageUrl = [] then upload else Inr (imageUrl, page))"

definition processImage ::
  "string \<Rightarrow> string \<Rightarrow> (request \<Rightarrow> exn + UploadResponse response)
     \<Rightarrow> (request \<Rightarrow> exn + json response) \<Rightarrow> (json \<Rightarrow> string) \<Rightarrow> string
     \<Rightarrow> (string \<Rightarrow> bool)
     \<Rightarrow> AgeDetectionPage \<times> localStorage \<Rightarrow> AgeDetectionPage \<times> localStorage" where
  "processImage API_URL API_KEY fetchUpload fetchDetect ToString now is_datetime ps =
     (let (page, st) = ps in
      case file page of
        None \<Rightarrow> (page, st)
      | Some f \<Rightarrow>
          if falsy_string (AgeDetectionPage.imageData page) then (page, st)
          else
            (case processImage_upload API_URL API_KEY fetchUpload f
                    (page\<lparr>AgeDetectionPage.error := None\<rparr>) of
               Inl (err, page1) \<Rightarrow> (processImage_catch err page1, st)
             | Inr (imageUrl, page1) \<Rightarrow>
                 (let page2 = page1\<lparr>processingState := processing\<rparr> in
                  case detectAge API_URL API_KEY fetchDetect ToString
                         (AgeDetectionPage.imageData page) imageUrl of
                    Inl err \<Rightarrow> (processImage_catch err page2, st)
                  | Inr detectionResult \<Rightarrow>
                      (let historyItem =
                             \<lparr>AgeDetectionHistoryItem.age = AgeDetectionResult.age detectionResult,
                              predictTime = AgeDetectionResult.predictTime detectionResult,
                              imageData = AgeDetectionResult.imageData detectionResult,
                              createdAt = now\<rparr>;
                           (updatedHistory, st') =
                             saveToStorage AgeDetectionHistoryItem_json AGE_DETECTION_STORAGE_KEY
                               historyItem (ageDetectionResultValidator is_datetime) st
                       in (page2\<lparr>history := updatedHistory,
                                  result := Some detectionResult,
                                  processingState := success\<rparr>, st')))))"

subsection \<open>Screenshot capture\<close>

datatype ImageFormat = jpg | png | webp

datatype ScreenshotState = idle | loading | success | error

record ScreenshotParams_without_url =
  resX :: nat
  resY :: nat
  outFormat :: ImageFormat
  waitTime :: nat
  isFullPage :: bool
  dismissModals :: bool

record ScreenshotParams = ScreenshotParams_without_url +
  url :: string

record ScreenshotCapture =
  apiKey :: string
  url :: string
  screenshotState :: ScreenshotState
  currentImageData :: "string option"
  error :: "string option"
  items :: "ScreenshotItem list"
  params :: ScreenshotParams_without_url

text \<open>\<^verbatim>\<open>String(value)\<close> for the values of the parameters.\<close>

fun String_ImageFormat :: "ImageFormat \<Rightarrow> string" where
  "String_ImageFormat jpg = ''jpg''"
| "String_ImageFormat png = ''png''"
| "String_ImageFormat webp = ''webp''"

definition String_bool :: "bool \<Rightarrow> string" where
  "String_bool b = (if b then ''true'' else ''false'')"

text \<open>
  \<open>trim\<close> is the platform's \<^verbatim>\<open>String.prototype.trim\<close>, \<open>URL_parses u\<close> says that
  \<^verbatim>\<open>new URL(u)\<close> does not throw, and \<open>URLSearchParams_toString\<close> is the platform's
  encoding of the appended pairs.
\<close>

definition isValidUrl :: "(string \<Rightarrow> string) \<Rightarrow> (string \<Rightarrow> bool) \<Rightarrow> string \<Rightarrow> bool" where
  "isValidUrl trim URL_parses u = (trim u \<noteq> [] \<and> URL_parses u)"

definition generateQueryString ::
  "((string \<times> string) list \<Rightarrow> string) \<Rightarrow> ScreenshotParams \<Rightarrow> string" where
  "generateQueryString URLSearchParams_toString ps =
     URLSearchParams_toString
       [(''resX'', decimal (resX ps)), (''resY'', decimal (resY ps)),
        (''outFormat'', String_ImageFormat (outFormat ps)),
        (''waitTime'', decimal (waitTime ps)),
        (''isFullPage'', String_bool (isFullPage ps)),
        (''dismissModals'', String_bool (dismissModals ps)),
        (''url'', ScreenshotParams.url ps)]"

text \<open>\<^verbatim>\<open>blobToBase64\<close>: the \<^verbatim>\<open>FileReader\<close> resolves with the data URL or rejects.\<close>

definition blobToBase64 :: "(blob \<Rightarrow> exn + string) \<Rightarrow> blob \<Rightarrow> exn + string" where
  "blobToBase64 readAsDataURL b = readAsDataURL b"

definition fileToBase64 :: "(blob \<Rightarrow> exn + string) \<Rightarrow> blob \<Rightarrow> exn + string" where
  "fileToBase64 readAsDataURL f = blobToBase64 readAsDataURL f"

definition screenshot_request ::
  "string \<Rightarrow> ((string \<times> string) list \<Rightarrow> string) \<Rightarrow> ScreenshotCapture \<Rightarrow> request" where
  "screenshot_request API_URL URLSearchParams_toString page =
     (let fullParams =
            \<lparr>resX = resX (params page), resY = resY (params page),
             outFormat = outFormat (params page), waitTime = waitTime (params page),
             isFullPage = isFullPage (params page),
             dismissModals = dismissModals (params page),
             ScreenshotParams.url = ScreenshotCapture.url page\<rparr>;
          queryString = generateQueryString URLSearchParams_toString fullParams
      in \<lparr>request.url =
            API_URL @ ''/api/v1/magicapi/screenshot-api/api/screenshot?'' @ queryString,
          request.method = ''GET'',
          headers = [(''accept'', ''image/'' @ String_ImageFormat (outFormat (params page))),
                     (''x-magicapi-key'', apiKey page)],
          body = NoBody\<rparr>)"

definition captureScreenshot_catch :: "exn \<Rightarrow> ScreenshotCapture \<Rightarrow> ScreenshotCapture" where
  "captureScreenshot_catch err page =
     page\<lparr>ScreenshotCapture.error := Some (message_or err ''Unknown error occurred''),
          screenshotState := ScreenshotState.error\<rparr>"

definition captureScreenshot ::
  "string \<Rightarrow> (request \<Rightarrow> exn + blob response) \<Rightarrow> (blob \<Rightarrow> exn + string)
     \<Rightarrow> ((string \<times> string) list \<Rightarrow> string) \<Rightarrow> (string \<Rightarrow> string) \<Rightarrow> (string \<Rightarrow> bool)
     \<Rightarrow> string \<Rightarrow> (string \<Rightarrow> bool) \<Rightarrow> (string \<Rightarrow> bool)
     \<Rightarrow> ScreenshotCapture \<times> localStorage \<Rightarrow> ScreenshotCapture \<times> localStorage" where
  "captureScreenshot API_URL fetch readAsDataURL URLSearchParams_toString trim URL_parses now
      is_url is_datetime ps =
     (let (page, st) = ps in
      if \<not> isValidUrl trim URL_parses (ScreenshotCapture.url page) \<or> trim (apiKey page) = []
      then (page, st)
      else
        (let page1 = page\<lparr>screenshotState := loading, ScreenshotCapture.error := None\<rparr> in
         case fetch (screenshot_request API_URL URLSearchParams_toString page) of
           Inl err \<Rightarrow> (captureScreenshot_catch err page1, st)
         | Inr response \<Rightarrow>
             if \<not> ok response
             then (captureScreenshot_catch
                     (Error (''API Error: '' @ decimal (response.status response) @ '' ''
                               @ statusText response)) page1, st)
             else
               (case payload response of
                  Inl err \<Rightarrow> (captureScreenshot_catch err page1, st)
                | Inr b \<Rightarrow>
                    (case blobToBase64 readAsDataURL b of
                       Inl err \<Rightarrow> (captureScreenshot_catch err page1, st)
                     | Inr image_data \<Rightarrow>
                         (let newItem =
                                \<lparr>ScreenshotItem.input = ScreenshotCapture.url page,
                                 imageData = image_data, createdAt = now\<rparr>;
                              (updatedItems, st') =
                                saveToStorage ScreenshotItem_json STORAGE_KEY newItem
                                  (screenshotValidator is_url is_datetime) st
                          in (page1\<lparr>items := updatedItems,
                                     currentImageData := Some image_data,
                                     screenshotState := ScreenshotState.success\<rparr>, st'))))))"

section \<open>Properties of the modelled platform\<close>

lemma those_map_valid:
  "list_all (schema_valid toJSON schema) xs \<Longrightarrow> those (map (schema \<circ> toJSON) xs) = Some xs"
  by (induction xs) (simp_all add: schema_valid_def)

lemma written_lossless:
  "list_all (lossless toJSON) xs \<Longrightarrow> written (JArr (map toJSON xs)) = JArr (map toJSON xs)"
  by (induction xs) (simp_all add: lossless_def)

lemma z_array_valid:
  "list_all (schema_valid toJSON schema) xs \<Longrightarrow> z_array schema (JArr (map toJSON xs)) = Some xs"
  by (simp add: z_array_def those_map_valid)

lemma z_array_invalid_element:
  "bad \<in> set js \<Longrightarrow> schema bad = None \<Longrightarrow> z_array schema (JArr js) = None"
  by (induction js) (auto simp: z_array_def split: option.splits)

lemma those_member:
  "those (map f js) = Some xs \<Longrightarrow> x \<in> set xs \<Longrightarrow> \<exists>j\<in>set js. f j = Some x"
  by (induction js arbitrary: xs) (auto split: option.splits)

lemma ScreenshotItem_codec:
  "ScreenshotItem_schema is_url is_datetime (ScreenshotItem_json r) =
     (if is_url (ScreenshotItem.input r) \<and> is_datetime (ScreenshotItem.createdAt r)
      then Some r else None)"
  by (simp add: ScreenshotItem_schema_def ScreenshotItem_json_def z_field_def
      z_string_check_def z_string_def)

lemma ScreenshotItem_schema_sound:
  assumes "ScreenshotItem_schema is_url is_datetime j = Some x"
  shows "ScreenshotItem_schema is_url is_datetime (ScreenshotItem_json x) = Some x"
proof -
  from assms have "is_url (ScreenshotItem.input x) \<and> is_datetime (ScreenshotItem.createdAt x)"
    by (auto simp: ScreenshotItem_schema_def z_field_def z_string_check_def
        split: json.splits option.splits if_splits)
  then show ?thesis by (simp add: ScreenshotItem_codec)
qed

lemma AgeDetectionHistoryItem_codec:
  "AgeDetectionHistoryItem_schema is_datetime (AgeDetectionHistoryItem_json r) =
     (if (\<exists>a. AgeDetectionHistoryItem.age r = Some (JStr a)) \<and>
         (\<exists>n. AgeDetectionHistoryItem.predictTime r = Some (JNum n) \<and> n \<noteq> NaN) \<and>
         is_datetime (AgeDetectionHistoryItem.createdAt r)
      then Some r else None)"
proof (cases "AgeDetectionHistoryItem.age r")
  case None
  then show ?thesis
    by (cases "AgeDetectionHistoryItem.predictTime r")
       (simp_all add: AgeDetectionHistoryItem_schema_def AgeDetectionHistoryItem_json_def
          json_field_def z_field_def z_string_def)
next
  case (Some a)
  show ?thesis
  proof (cases "AgeDetectionHistoryItem.predictTime r")
    case None
    with Some show ?thesis
      by (cases a)
         (simp_all add: AgeDetectionHistoryItem_schema_def AgeDetectionHistoryItem_json_def
            json_field_def z_field_def z_string_def z_number_def)
  next
    case p: (Some p)
    with Some show ?thesis
      by (cases a; cases p)
         (simp_all add: AgeDetectionHistoryItem_schema_def AgeDetectionHistoryItem_json_def
            json_field_def z_field_def z_string_def z_number_def z_string_check_def)
  qed
qed

lemma AgeDetectionHistoryItem_schema_sound:
  assumes "AgeDetectionHistoryItem_schema is_datetime j = Some x"
  shows "AgeDetectionHistoryItem_schema is_datetime (AgeDetectionHistoryItem_json x) = Some x"
proof -
  from assms have "(\<exists>a. AgeDetectionHistoryItem.age x = Some (JStr a)) \<and>
         (\<exists>n. AgeDetectionHistoryItem.predictTime x = Some (JNum n) \<and> n \<noteq> NaN) \<and>
         is_datetime (AgeDetectionHistoryItem.createdAt x)"
    by (auto simp: AgeDetectionHistoryItem_schema_def z_field_def z_string_check_def z_number_def
        split: json.splits option.splits if_splits)
  then show ?thesis by (simp add: AgeDetectionHistoryItem_codec)
qed

text \<open>
  Which records of the two kinds are schema-valid, and which are written without loss:
  every screenshot record is, and a valid age-detection record is when its
  \<open>predictTime\<close> is finite.
\<close>

lemma ScreenshotItem_schema_valid_iff:
  "schema_valid ScreenshotItem_json (ScreenshotItem_schema is_url is_datetime) r =
     (is_url (ScreenshotItem.input r) \<and> is_datetime (ScreenshotItem.createdAt r))"
  by (simp add: schema_valid_def ScreenshotItem_codec)

lemma written_ScreenshotItem_json: "written (ScreenshotItem_json r) = ScreenshotItem_json r"
  by (simp add: ScreenshotItem_json_def)

lemma ScreenshotItem_lossless: "lossless ScreenshotItem_json r"
  by (simp add: lossless_def written_ScreenshotItem_json)

lemma AgeDetectionHistoryItem_schema_valid_iff:
  "schema_valid AgeDetectionHistoryItem_json (AgeDetectionHistoryItem_schema is_datetime) r =
     ((\<exists>a. AgeDetectionHistoryItem.age r = Some (JStr a)) \<and>
      (\<exists>n. AgeDetectionHistoryItem.predictTime r = Some (JNum n) \<and> n \<noteq> NaN) \<and>
      is_datetime (AgeDetectionHistoryItem.createdAt r))"
  by (simp add: schema_valid_def AgeDetectionHistoryItem_codec)

lemma AgeDetectionHistoryItem_lossless_iff:
  assumes "schema_valid AgeDetectionHistoryItem_json (AgeDetectionHistoryItem_schema is_datetime) r"
  shows "lossless AgeDetectionHistoryItem_json r =
           (\<exists>q. AgeDetectionHistoryItem.predictTime r = Some (JNum (Finite q)))"
proof -
  from assms obtain a n where "AgeDetectionHistoryItem.age r = Some (JStr a)"
      and "AgeDetectionHistoryItem.predictTime r = Some (JNum n)"
    by (auto simp: AgeDetectionHistoryItem_schema_valid_iff)
  then show ?thesis
    by (cases n) (simp_all add: lossless_def AgeDetectionHistoryItem_json_def json_field_def)
qed

section \<open>Reading\<close>

lemma quota_getFromStorage [simp]:
  "quota (snd (getFromStorage key validator st)) = quota st"
  by (simp add: getFromStorage_def Let_def removeItem_def split: option.splits sum.splits)

lemma getFromStorage_idem:
  "getFromStorage key validator (snd (getFromStorage key validator st)) =
     getFromStorage key validator st"
  by (simp add: getFromStorage_def Let_def getItem_def falsy_text_def removeItem_def
      split: option.splits sum.splits)

lemma getFromStorage_stored:
  assumes "entries st key = Some (JSON_stringify (JArr (map toJSON xs)))"
      and "list_all (schema_valid toJSON schema) xs"
      and "list_all (lossless toJSON) xs"
  shows "getFromStorage key (z_array schema) st = (xs, st)"
proof -
  have "entries st key = Some (Stringified (JArr (map toJSON xs)))"
    using assms(1) written_lossless [OF assms(3)] by (simp add: JSON_stringify_def)
  then show ?thesis
    using assms(2)
    by (simp add: getFromStorage_def getItem_def falsy_text_def JSON_parse_def z_array_valid)
qed

lemma getFromStorage_member:
  assumes "x \<in> set (fst (getFromStorage key (z_array schema) st))"
  shows "\<exists>j. schema j = Some x"
proof -
  from assms obtain js
    where "those (map schema js) = Some (fst (getFromStorage key (z_array schema) st))"
    by (auto simp: getFromStorage_def Let_def z_array_def
        split: if_splits option.splits sum.splits json.splits)
  with assms show ?thesis using those_member by fastforce
qed

section \<open>Appending\<close>

lemma quota_saveToStorage [simp]:
  "quota (snd (saveToStorage toJSON key r validator st)) = quota st"
proof -
  have "quota (snd (getFromStorage key validator st)) = quota st" by simp
  then show ?thesis
    by (cases "getFromStorage key validator st")
       (simp add: saveToStorage_def setItem_def Let_def)
qed

lemma saveToStorage_accepted:
  assumes "getFromStorage key validator st = (ys, st1)"
      and "quota st1 (entries st1) key (JSON_stringify (JArr (map toJSON (r # ys))))"
  shows "saveToStorage toJSON key r validator st =
           (r # ys, st1\<lparr>entries := (entries st1)(key \<mapsto> JSON_stringify (JArr (map toJSON (r # ys))))\<rparr>)"
  using assms by (simp add: saveToStorage_def setItem_def Let_def)

lemma saveToStorage_then_read:
  assumes "fst (getFromStorage key (z_array schema) st) = ys"
      and "list_all (schema_valid toJSON schema) (r # ys)"
      and "list_all (lossless toJSON) (r # ys)"
      and "\<forall>m k v. quota st m k v"
  shows "getFromStorage key (z_array schema) (snd (saveToStorage toJSON key r (z_array schema) st))
           = (r # ys, snd (saveToStorage toJSON key r (z_array schema) st))"
proof -
  obtain st1 where rd: "getFromStorage key (z_array schema) st = (ys, st1)"
    using assms(1) by (cases "getFromStorage key (z_array schema) st") simp
  have q: "quota st1 = quota st"
    using quota_getFromStorage [of key "z_array schema" st] rd by simp
  have sv: "saveToStorage toJSON key r (z_array schema) st =
           (r # ys, st1\<lparr>entries := (entries st1)(key \<mapsto> JSON_stringify (JArr (map toJSON (r # ys))))\<rparr>)"
    by (rule saveToStorage_accepted [OF rd]) (simp add: q assms(4))
  show ?thesis
    unfolding sv snd_conv
    by (rule getFromStorage_stored [where toJSON = toJSON, OF _ assms(2,3)]) simp
qed

text \<open>
  C1, as the code has it. Let the storage accept every write, let a read of \<open>key\<close>
  return the records \<open>ys\<close> (none, when the key is absent), and let the records \<open>rs\<close> be
  appended one at a time with \<open>saveToStorage\<close>, all of them schema-valid and written
  without loss (no number in them is infinite). Then a read of \<open>key\<close> returns the
  records of \<open>rs\<close>, the most recent first, followed by \<open>ys\<close>: exactly \<open>rev rs\<close> for a
  key that was absent.
\<close>

theorem saveToStorage_round_trip:
  assumes "list_all (schema_valid toJSON schema) rs"
      and "list_all (lossless toJSON) rs"
      and "list_all (schema_valid toJSON schema) ys"
      and "list_all (lossless toJSON) ys"
      and "fst (getFromStorage key (z_array schema) st) = ys"
      and "\<forall>m k v. quota st m k v"
  shows "fst (getFromStorage key (z_array schema)
            (foldl (\<lambda>s r. snd (saveToStorage toJSON key r (z_array schema) s)) st rs))
         = rev rs @ ys"
  using assms
proof (induction rs arbitrary: st ys)
  case Nil
  then show ?case by simp
next
  case (Cons r rs)
  let ?st' = "snd (saveToStorage toJSON key r (z_array schema) st)"
  have v: "list_all (schema_valid toJSON schema) (r # ys)"
    using Cons.prems(1,3) by simp
  have l: "list_all (lossless toJSON) (r # ys)"
    using Cons.prems(2,4) by simp
  have rd: "fst (getFromStorage key (z_array schema) ?st') = r # ys"
    using saveToStorage_then_read [OF Cons.prems(5) v l Cons.prems(6)] by simp
  have q: "\<forall>m k v. quota ?st' m k v"
    using Cons.prems(6) by simp
  have rs: "list_all (schema_valid toJSON schema) rs" "list_all (lossless toJSON) rs"
    using Cons.prems(1,2) by simp_all
  show ?case
    using Cons.IH [OF rs v l rd q] by simp
qed

theorem saveToStorage_round_trip_witness:
  "fst (getFromStorage STORAGE_KEY
          (screenshotValidator (\<lambda>s. take 8 s = ''https://'') (\<lambda>s. length s = 24))
          (foldl (\<lambda>s r. snd (saveToStorage ScreenshotItem_json STORAGE_KEY r
                     (screenshotValidator (\<lambda>s. take 8 s = ''https://'') (\<lambda>s. length s = 24)) s))
             \<lparr>entries = Map.empty, quota = (\<lambda>m k v. True)\<rparr>
             [\<lparr>ScreenshotItem.input = ''https://a.example'', imageData = ''AA'',
                createdAt = ''2024-01-01T00:00:00.000Z''\<rparr>,
              \<lparr>ScreenshotItem.input = ''https://b.example'', imageData = ''BB'',
                createdAt = ''2024-01-02T00:00:00.000Z''\<rparr>]))
   = [\<lparr>ScreenshotItem.input = ''https://b.example'', imageData = ''BB'',
        createdAt = ''2024-01-02T00:00:00.000Z''\<rparr>,
      \<lparr>ScreenshotItem.input = ''https://a.example'', imageData = ''AA'',
        createdAt = ''2024-01-01T00:00:00.000Z''\<rparr>]"
  using saveToStorage_round_trip [of ScreenshotItem_json
    "ScreenshotItem_schema (\<lambda>s. take 8 s = ''https://'') (\<lambda>s. length s = 24)"
    "[\<lparr>ScreenshotItem.input = ''https://a.example'', imageData = ''AA'',
        createdAt = ''2024-01-01T00:00:00.000Z''\<rparr>,
      \<lparr>ScreenshotItem.input = ''https://b.example'', imageData = ''BB'',
        createdAt = ''2024-01-02T00:00:00.000Z''\<rparr>]"
    "[]" STORAGE_KEY "\<lparr>entries = Map.empty, quota = (\<lambda>m k v. True)\<rparr>"]
  by (simp add: schema_valid_def ScreenshotItem_codec ScreenshotItem_lossless getFromStorage_def
      getItem_def falsy_text_def screenshotValidator_def)

text \<open>
  The stated claim fails for a record with an infinite number, which the validator
  accepts: it is written with \<^verbatim>\<open>null\<close> in the number's place, and the read that follows
  finds the collection invalid and returns nothing.
\<close>

theorem saveToStorage_infinite_number_counterexample:
  "schema_valid AgeDetectionHistoryItem_json
      (AgeDetectionHistoryItem_schema (\<lambda>s. length s = 24))
      \<lparr>AgeDetectionHistoryItem.age = Some (JStr ''34''), predictTime = Some (JNum Infinity),
        imageData = ''AA'', createdAt = ''2024-01-01T00:00:00.000Z''\<rparr> \<and>
   fst (saveToStorage AgeDetectionHistoryItem_json AGE_DETECTION_STORAGE_KEY
      \<lparr>AgeDetectionHistoryItem.age = Some (JStr ''34''), predictTime = Some (JNum Infinity),
        imageData = ''AA'', createdAt = ''2024-01-01T00:00:00.000Z''\<rparr>
      (ageDetectionResultValidator (\<lambda>s. length s = 24))
      \<lparr>entries = Map.empty, quota = (\<lambda>m k v. True)\<rparr>)
    = [\<lparr>AgeDetectionHistoryItem.age = Some (JStr ''34''), predictTime = Some (JNum Infinity),
         imageData = ''AA'', createdAt = ''2024-01-01T00:00:00.000Z''\<rparr>] \<and>
   fst (getFromStorage AGE_DETECTION_STORAGE_KEY
      (ageDetectionResultValidator (\<lambda>s. length s = 24))
      (snd (saveToStorage AgeDetectionHistoryItem_json AGE_DETECTION_STORAGE_KEY
         \<lparr>AgeDetectionHistoryItem.age = Some (JStr ''34''), predictTime = Some (JNum Infinity),
           imageData = ''AA'', createdAt = ''2024-01-01T00:00:00.000Z''\<rparr>
         (ageDetectionResultValidator (\<lambda>s. length s = 24))
         \<lparr>entries = Map.empty, quota = (\<lambda>m k v. True)\<rparr>)))
    = []"
  by (simp add: AgeDetectionHistoryItem_schema_valid_iff saveToStorage_def getFromStorage_def
      getItem_def falsy_text_def setItem_def JSON_stringify_def JSON_parse_def
      ageDetectionResultValidator_def z_array_def AgeDetectionHistoryItem_json_def json_field_def
      AgeDetectionHistoryItem_schema_def z_field_def z_string_def z_number_def Let_def)

text \<open>
  C7. Write failure of an append. When \<open>setItem\<close> throws during \<open>saveToStorage\<close>, the
  call returns the one-element list holding only the new record; the exception is caught
  and the storage stays as the internal read left it.
\<close>

theorem saveToStorage_write_failure:
  assumes "getFromStorage key validator st = (existingItems, st1)"
      and "setItem key (JSON_stringify (JArr (map toJSON (item # existingItems)))) st1 = Inl err"
  shows "saveToStorage toJSON key item validator st = ([item], st1)"
  using assms by (simp add: saveToStorage_def)

theorem saveToStorage_write_failure_witness:
  "saveToStorage ScreenshotItem_json STORAGE_KEY
      \<lparr>ScreenshotItem.input = ''https://a.example'', imageData = ''AA'',
        createdAt = ''2024-01-01T00:00:00.000Z''\<rparr>
      (screenshotValidator (\<lambda>s. take 8 s = ''https://'') (\<lambda>s. length s = 24))
      \<lparr>entries = Map.empty, quota = (\<lambda>m k v. False)\<rparr>
   = ([\<lparr>ScreenshotItem.input = ''https://a.example'', imageData = ''AA'',
         createdAt = ''2024-01-01T00:00:00.000Z''\<rparr>],
      \<lparr>entries = Map.empty, quota = (\<lambda>m k v. False)\<rparr>)"
  by (rule saveToStorage_write_failure
        [where existingItems = "[]" and err = "DOMException ''QuotaExceededError''"])
     (simp_all add: getFromStorage_def getItem_def falsy_text_def setItem_def)

text \<open>
  C10. An append does not validate the record it is given. For every record \<open>r\<close>, valid or
  not, the list \<open>saveToStorage\<close> returns has \<open>r\<close> at its head, and when the write is
  accepted the stored text is the serialisation of \<open>r\<close> followed by the records the
  internal read returned. The validator is applied by that read only.
\<close>

theorem saveToStorage_no_validation:
  assumes "getFromStorage key validator st = (existingItems, st1)"
  shows "fst (saveToStorage toJSON key r validator st) \<noteq> [] \<and>
         hd (fst (saveToStorage toJSON key r validator st)) = r \<and>
         (quota st1 (entries st1) key (JSON_stringify (JArr (map toJSON (r # existingItems)))) \<longrightarrow>
            fst (saveToStorage toJSON key r validator st) = r # existingItems \<and>
            entries (snd (saveToStorage toJSON key r validator st)) key =
              Some (JSON_stringify (JArr (toJSON r # map toJSON existingItems))))"
  using assms by (simp add: saveToStorage_def setItem_def Let_def)

theorem saveToStorage_no_validation_witness:
  "ScreenshotItem_schema (\<lambda>s. take 8 s = ''https://'') (\<lambda>s. length s = 24)
      (ScreenshotItem_json
         \<lparr>ScreenshotItem.input = ''https://a.example'', imageData = ''AA'',
           createdAt = ''yesterday''\<rparr>) = None \<and>
   fst (saveToStorage ScreenshotItem_json STORAGE_KEY
      \<lparr>ScreenshotItem.input = ''https://a.example'', imageData = ''AA'',
        createdAt = ''yesterday''\<rparr>
      (screenshotValidator (\<lambda>s. take 8 s = ''https://'') (\<lambda>s. length s = 24))
      \<lparr>entries = Map.empty, quota = (\<lambda>m k v. True)\<rparr>)
    = [\<lparr>ScreenshotItem.input = ''https://a.example'', imageData = ''AA'',
         createdAt = ''yesterday''\<rparr>] \<and>
   entries (snd (saveToStorage ScreenshotItem_json STORAGE_KEY
      \<lparr>ScreenshotItem.input = ''https://a.example'', imageData = ''AA'',
        createdAt = ''yesterday''\<rparr>
      (screenshotValidator (\<lambda>s. take 8 s = ''https://'') (\<lambda>s. length s = 24))
      \<lparr>entries = Map.empty, quota = (\<lambda>m k v. True)\<rparr>)) STORAGE_KEY
    = Some (JSON_stringify (JArr [ScreenshotItem_json
         \<lparr>ScreenshotItem.input = ''https://a.example'', imageData = ''AA'',
           createdAt = ''yesterday''\<rparr>]))"
  using saveToStorage_no_validation [of STORAGE_KEY
      "screenshotValidator (\<lambda>s. take 8 s = ''https://'') (\<lambda>s. length s = 24)"
      "\<lparr>entries = Map.empty, quota = (\<lambda>m k v. True)\<rparr>" "[]"
      "\<lparr>entries = Map.empty, quota = (\<lambda>m k v. True)\<rparr>" ScreenshotItem_json
      "\<lparr>ScreenshotItem.input = ''https://a.example'', imageData = ''AA'',
        createdAt = ''yesterday''\<rparr>"]
  by (simp add: getFromStorage_def getItem_def falsy_text_def ScreenshotItem_codec)

section \<open>Self-healing reads\<close>

text \<open>
  C2, as the code has it. When the entry of \<open>key\<close> is absent, is not parseable as JSON,
  or parses to a value the validator rejects (for an array validator: a collection with
  one invalid element), \<open>getFromStorage\<close> returns the empty list and a second read returns
  the empty list too. The entry is deleted, except when it is the empty string: that one
  is taken for an absent entry and left in place.
\<close>

theorem getFromStorage_self_healing:
  assumes "entries st key = None
         \<or> entries st key = Some (Unparseable s)
         \<or> (entries st key = Some (Stringified j) \<and> validator j = None)
         \<or> (entries st key = Some (Stringified (JArr js)) \<and> bad \<in> set js \<and> schema bad = None
              \<and> validator = z_array schema)"
  shows "fst (getFromStorage key validator st) = [] \<and>
         entries (snd (getFromStorage key validator st)) key =
           (if entries st key = Some (Unparseable []) then Some (Unparseable []) else None) \<and>
         fst (getFromStorage key validator (snd (getFromStorage key validator st))) = []"
proof -
  have "entries st key = None \<or> entries st key = Some (Unparseable s)
         \<or> (\<exists>j'. entries st key = Some (Stringified j') \<and> validator j' = None)"
    using assms z_array_invalid_element [of bad js schema] by auto
  then show ?thesis
    by (auto simp: getFromStorage_def Let_def getItem_def falsy_text_def removeItem_def
        JSON_parse_def split: option.splits sum.splits)
qed

theorem getFromStorage_self_healing_witness:
  "getFromStorage STORAGE_KEY (screenshotValidator (\<lambda>s. True) (\<lambda>s. True))
      \<lparr>entries = [STORAGE_KEY \<mapsto> Unparseable ''[{broken''], quota = (\<lambda>m k v. True)\<rparr>
     = ([], \<lparr>entries = [STORAGE_KEY \<mapsto> Unparseable ''[{broken''](STORAGE_KEY := None),
              quota = (\<lambda>m k v. True)\<rparr>) \<and>
   fst (getFromStorage STORAGE_KEY (screenshotValidator (\<lambda>s. True) (\<lambda>s. True))
      (snd (getFromStorage STORAGE_KEY (screenshotValidator (\<lambda>s. True) (\<lambda>s. True))
         \<lparr>entries = [STORAGE_KEY \<mapsto> Unparseable ''[{broken''], quota = (\<lambda>m k v. True)\<rparr>))) = []"
  using getFromStorage_self_healing [of
      "\<lparr>entries = [STORAGE_KEY \<mapsto> Unparseable ''[{broken''], quota = (\<lambda>m k v. True)\<rparr>"
      STORAGE_KEY "''[{broken''" JNull "screenshotValidator (\<lambda>s. True) (\<lambda>s. True)" "[]" JNull
      "ScreenshotItem_schema (\<lambda>s. True) (\<lambda>s. True)"]
  by (simp add: getFromStorage_def Let_def getItem_def falsy_text_def removeItem_def
      JSON_parse_def)

text \<open>
  The stated claim fails for the empty string: it is present and \<open>JSON_parse\<close> throws on
  it, yet the read leaves the entry in the storage.
\<close>

theorem getFromStorage_empty_string_counterexample:
  "JSON_parse (Unparseable []) = Inl (SyntaxError ''Unexpected token'') \<and>
   getFromStorage STORAGE_KEY (screenshotValidator (\<lambda>s. True) (\<lambda>s. True))
      \<lparr>entries = [STORAGE_KEY \<mapsto> Unparseable []], quota = (\<lambda>m k v. True)\<rparr>
    = ([], \<lparr>entries = [STORAGE_KEY \<mapsto> Unparseable []], quota = (\<lambda>m k v. True)\<rparr>) \<and>
   entries (snd (getFromStorage STORAGE_KEY (screenshotValidator (\<lambda>s. True) (\<lambda>s. True))
      \<lparr>entries = [STORAGE_KEY \<mapsto> Unparseable []], quota = (\<lambda>m k v. True)\<rparr>)) STORAGE_KEY
    = Some (Unparseable [])"
  by (simp add: getFromStorage_def Let_def getItem_def falsy_text_def JSON_parse_def)

section \<open>Invalid records\<close>

text \<open>
  C8. A record that fails schema validation is never returned by a read. Let the element
  schema reject the JSON form of \<open>r\<close>, and let everything the schema returns be
  schema-valid itself (both validators of the store are so). Then no read returns a
  list containing \<open>r\<close>, whatever the storage holds: not the read that follows
  \<open>saveToStorage\<close> of \<open>r\<close>, and not a read of any later storage \<open>st'\<close>.
\<close>

theorem invalid_record_never_read:
  assumes "schema (toJSON r) = None"
      and "\<And>j x. schema j = Some x \<Longrightarrow> schema (toJSON x) = Some x"
  shows "r \<notin> set (fst (getFromStorage key (z_array schema)
                      (snd (saveToStorage toJSON key r (z_array schema) st)))) \<and>
         r \<notin> set (fst (getFromStorage key (z_array schema) st'))"
proof -
  have "r \<notin> set (fst (getFromStorage key (z_array schema) s))" for s
  proof
    assume "r \<in> set (fst (getFromStorage key (z_array schema) s))"
    then obtain j where "schema j = Some r" using getFromStorage_member by fastforce
    then have "schema (toJSON r) = Some r" by (rule assms(2))
    with assms(1) show False by simp
  qed
  then show ?thesis by simp
qed

theorem invalid_record_never_read_witness:
  "ScreenshotItem_schema (\<lambda>s. take 8 s = ''https://'') (\<lambda>s. length s = 24)
      (ScreenshotItem_json
         \<lparr>ScreenshotItem.input = ''https://a.example'', imageData = ''AA'',
           createdAt = ''yesterday''\<rparr>) = None \<and>
   \<lparr>ScreenshotItem.input = ''https://a.example'', imageData = ''AA'', createdAt = ''yesterday''\<rparr>
     \<notin> set (fst (getFromStorage STORAGE_KEY
          (z_array (ScreenshotItem_schema (\<lambda>s. take 8 s = ''https://'') (\<lambda>s. length s = 24)))
          (snd (saveToStorage ScreenshotItem_json STORAGE_KEY
             \<lparr>ScreenshotItem.input = ''https://a.example'', imageData = ''AA'',
               createdAt = ''yesterday''\<rparr>
             (z_array (ScreenshotItem_schema (\<lambda>s. take 8 s = ''https://'') (\<lambda>s. length s = 24)))
             \<lparr>entries = Map.empty, quota = (\<lambda>m k v. True)\<rparr>))))"
proof -
  have bad: "ScreenshotItem_schema (\<lambda>s. take 8 s = ''https://'') (\<lambda>s. length s = 24)
      (ScreenshotItem_json
         \<lparr>ScreenshotItem.input = ''https://a.example'', imageData = ''AA'',
           createdAt = ''yesterday''\<rparr>) = None"
    by (simp add: ScreenshotItem_codec)
  have "\<lparr>ScreenshotItem.input = ''https://a.example'', imageData = ''AA'',
          createdAt = ''yesterday''\<rparr>
     \<notin> set (fst (getFromStorage STORAGE_KEY
          (z_array (ScreenshotItem_schema (\<lambda>s. take 8 s = ''https://'') (\<lambda>s. length s = 24)))
          (snd (saveToStorage ScreenshotItem_json STORAGE_KEY
             \<lparr>ScreenshotItem.input = ''https://a.example'', imageData = ''AA'',
               createdAt = ''yesterday''\<rparr>
             (z_array (ScreenshotItem_schema (\<lambda>s. take 8 s = ''https://'') (\<lambda>s. length s = 24)))
             \<lparr>entries = Map.empty, quota = (\<lambda>m k v. True)\<rparr>)))) \<and>
        \<lparr>ScreenshotItem.input = ''https://a.example'', imageData = ''AA'',
          createdAt = ''yesterday''\<rparr>
     \<notin> set (fst (getFromStorage STORAGE_KEY
          (z_array (ScreenshotItem_schema (\<lambda>s. take 8 s = ''https://'') (\<lambda>s. length s = 24)))
          \<lparr>entries = Map.empty, quota = (\<lambda>m k v. True)\<rparr>))"
  proof (rule invalid_record_never_read [where toJSON = ScreenshotItem_json])
    show "ScreenshotItem_schema (\<lambda>s. take 8 s = ''https://'') (\<lambda>s. length s = 24)
      (ScreenshotItem_json
         \<lparr>ScreenshotItem.input = ''https://a.example'', imageData = ''AA'',
           createdAt = ''yesterday''\<rparr>) = None"
      by (rule bad)
  next
    fix j x
    assume "ScreenshotItem_schema (\<lambda>s. take 8 s = ''https://'') (\<lambda>s. length s = 24) j = Some x"
    then show "ScreenshotItem_schema (\<lambda>s. take 8 s = ''https://'') (\<lambda>s. length s = 24)
                 (ScreenshotItem_json x) = Some x"
      by (rule ScreenshotItem_schema_sound)
  qed
  with bad show ?thesis by blast
qed

text \<open>
  How the record is filtered: after an accepted write of a record the schema rejects as
  it is written, the next read finds the whole collection invalid, deletes the entry
  and returns the empty list.
\<close>

lemma invalid_record_filtered:
  assumes "schema (written (toJSON r)) = None"
      and "getFromStorage key (z_array schema) st = (existingItems, st1)"
      and "quota st1 (entries st1) key (JSON_stringify (JArr (map toJSON (r # existingItems))))"
  shows "getFromStorage key (z_array schema) (snd (saveToStorage toJSON key r (z_array schema) st))
         = ([], removeItem key (snd (saveToStorage toJSON key r (z_array schema) st)))"
  using assms
  by (simp add: saveToStorage_def setItem_def Let_def removeItem_def
      getFromStorage_def [of key _ "_\<lparr>entries := _\<rparr>"] getItem_def
      falsy_text_def JSON_stringify_def JSON_parse_def z_array_def)

section \<open>Removing\<close>

lemma slice_prefix: "0 \<le> i \<Longrightarrow> slice xs 0 i = take (nat i) xs"
  by (simp add: slice_def relative_index_def Let_def min_def)

lemma slice_from_suffix: "0 \<le> i \<Longrightarrow> slice_from xs (i + 1) = drop (Suc (nat i)) xs"
  by (simp add: slice_from_def relative_index_def min_def nat_add_distrib)

lemma slice_beyond:
  assumes "int (length xs) \<le> i"
  shows "slice xs 0 i = xs \<and> slice_from xs (i + 1) = []"
proof -
  have "length xs \<le> nat i" and "length xs \<le> nat (i + 1)" and "0 \<le> i"
    using assms by linarith+
  then show ?thesis
    by (simp add: slice_def slice_from_def relative_index_def Let_def)
qed

lemma slice_below:
  "i < - int (length xs) \<Longrightarrow> slice xs 0 i = [] \<and> slice_from xs (i + 1) = xs"
  by (simp add: slice_def slice_from_def relative_index_def Let_def min_def max_def)

lemma set_slice: "set (slice xs a b) \<subseteq> set xs"
  unfolding slice_def Let_def
  by (meson set_take_subset set_drop_subset subset_trans)

lemma set_slice_from: "set (slice_from xs a) \<subseteq> set xs"
  unfolding slice_from_def by (rule set_drop_subset)

lemma list_all_spliced:
  "list_all P xs \<Longrightarrow> list_all P (slice xs 0 i @ slice_from xs (i + 1))"
  using set_slice [of xs 0 i] set_slice_from [of xs "i + 1"]
  by (auto simp: list_all_iff)

lemma quota_removeFromStorage [simp]:
  "quota (snd (removeFromStorage toJSON key i validator st)) = quota st"
proof -
  have a: "quota (snd (getFromStorage key validator st)) = quota st" by simp
  have b: "quota (snd (getFromStorage key validator (snd (getFromStorage key validator st))))
             = quota st"
    by simp
  from a b show ?thesis
    by (cases "getFromStorage key validator st")
       (simp add: removeFromStorage_def setItem_def Let_def)
qed

lemma removeFromStorage_accepted:
  assumes "getFromStorage key validator st = (its, st1)"
      and "quota st1 (entries st1) key
             (JSON_stringify (JArr (map toJSON (slice its 0 i @ slice_from its (i + 1)))))"
  shows "removeFromStorage toJSON key i validator st =
           (slice its 0 i @ slice_from its (i + 1),
            st1\<lparr>entries := (entries st1)(key \<mapsto>
               JSON_stringify (JArr (map toJSON (slice its 0 i @ slice_from its (i + 1)))))\<rparr>)"
  using assms by (simp add: removeFromStorage_def setItem_def Let_def)

lemma removeFromStorage_then_read:
  assumes "fst (getFromStorage key (z_array schema) st) = its"
      and "list_all (schema_valid toJSON schema) its"
      and "list_all (lossless toJSON) its"
      and "\<forall>m k v. quota st m k v"
  shows "fst (removeFromStorage toJSON key i (z_array schema) st)
           = slice its 0 i @ slice_from its (i + 1) \<and>
         fst (getFromStorage key (z_array schema)
               (snd (removeFromStorage toJSON key i (z_array schema) st)))
           = slice its 0 i @ slice_from its (i + 1)"
proof -
  let ?new = "slice its 0 i @ slice_from its (i + 1)"
  obtain st1 where rd: "getFromStorage key (z_array schema) st = (its, st1)"
    using assms(1) by (cases "getFromStorage key (z_array schema) st") simp
  have q: "quota st1 = quota st"
    using quota_getFromStorage [of key "z_array schema" st] rd by simp
  have rm: "removeFromStorage toJSON key i (z_array schema) st =
           (?new, st1\<lparr>entries := (entries st1)(key \<mapsto> JSON_stringify (JArr (map toJSON ?new)))\<rparr>)"
    by (rule removeFromStorage_accepted [OF rd]) (simp add: q assms(4))
  have v: "list_all (schema_valid toJSON schema) ?new"
    by (rule list_all_spliced [OF assms(2)])
  have l: "list_all (lossless toJSON) ?new"
    by (rule list_all_spliced [OF assms(3)])
  have "getFromStorage key (z_array schema)
          (st1\<lparr>entries := (entries st1)(key \<mapsto> JSON_stringify (JArr (map toJSON ?new)))\<rparr>)
        = (?new, st1\<lparr>entries := (entries st1)(key \<mapsto> JSON_stringify (JArr (map toJSON ?new)))\<rparr>)"
    by (rule getFromStorage_stored [where toJSON = toJSON, OF _ v l]) simp
  then show ?thesis by (simp add: rm)
qed

lemma drain_read:
  assumes "fst (getFromStorage key (z_array schema) st) = xs"
      and "list_all (schema_valid toJSON schema) xs"
      and "list_all (lossless toJSON) xs"
      and "\<forall>m k v. quota st m k v"
  shows "fst (getFromStorage key (z_array schema)
            (((\<lambda>s. snd (removeFromStorage toJSON key 0 (z_array schema) s)) ^^ n) st)) = drop n xs
         \<and> (\<forall>m k v. quota (((\<lambda>s. snd (removeFromStorage toJSON key 0 (z_array schema) s)) ^^ n) st) m k v)"
proof (induction n)
  case 0
  then show ?case using assms by simp
next
  case (Suc n)
  let ?s = "((\<lambda>s. snd (removeFromStorage toJSON key 0 (z_array schema) s)) ^^ n) st"
  have v: "list_all (schema_valid toJSON schema) (drop n xs)"
    using assms(2) set_drop_subset [of n xs] by (auto simp: list_all_iff)
  have l: "list_all (lossless toJSON) (drop n xs)"
    using assms(3) set_drop_subset [of n xs] by (auto simp: list_all_iff)
  have "fst (getFromStorage key (z_array schema)
               (snd (removeFromStorage toJSON key 0 (z_array schema) ?s)))
           = slice (drop n xs) 0 0 @ slice_from (drop n xs) (0 + 1)"
    using removeFromStorage_then_read [of key schema ?s "drop n xs" toJSON 0] Suc.IH v l by blast
  also have "\<dots> = drop (Suc n) xs"
    using slice_prefix [of 0 "drop n xs"] slice_from_suffix [of 0 "drop n xs"] by simp
  finally show ?case using Suc.IH by simp
qed

text \<open>
  C3, as the code has it. Let a read of \<open>key\<close> return the records \<open>xs\<close>, all of them
  schema-valid and written without loss (no number in them is infinite), let \<open>i\<close> be an
  index in range and let the storage accept every write. Then \<open>removeFromStorage\<close>
  returns, and the next read returns, \<open>xs\<close> without its element at position \<open>i\<close>, the
  others in their order. Removing index 0 as many times as \<open>xs\<close> is long leaves a key
  whose read is empty; every one of these calls ends in the \<open>try\<close> branch.
\<close>

theorem removeFromStorage_excises:
  assumes "fst (getFromStorage key (z_array schema) st) = xs"
      and "list_all (schema_valid toJSON schema) xs"
      and "list_all (lossless toJSON) xs"
      and "0 \<le> i" and "i < int (length xs)"
      and "\<forall>m k v. quota st m k v"
  shows "fst (removeFromStorage toJSON key i (z_array schema) st)
           = take (nat i) xs @ drop (Suc (nat i)) xs \<and>
         fst (getFromStorage key (z_array schema)
               (snd (removeFromStorage toJSON key i (z_array schema) st)))
           = take (nat i) xs @ drop (Suc (nat i)) xs \<and>
         fst (getFromStorage key (z_array schema)
               (((\<lambda>s. snd (removeFromStorage toJSON key 0 (z_array schema) s)) ^^ length xs) st))
           = []"
  using removeFromStorage_then_read [OF assms(1,2,3,6), of i]
        drain_read [OF assms(1,2,3,6), of "length xs"]
        slice_prefix [OF assms(4), of xs] slice_from_suffix [OF assms(4), of xs]
  by simp

theorem removeFromStorage_excises_witness:
  "fst (removeFromStorage ScreenshotItem_json STORAGE_KEY 1
          (z_array (ScreenshotItem_schema (\<lambda>s. take 8 s = ''https://'') (\<lambda>s. length s = 24)))
          \<lparr>entries = [STORAGE_KEY \<mapsto> JSON_stringify (JArr
             [ScreenshotItem_json \<lparr>ScreenshotItem.input = ''https://a.example'', imageData = ''AA'',
                createdAt = ''2024-01-03T00:00:00.000Z''\<rparr>,
              ScreenshotItem_json \<lparr>ScreenshotItem.input = ''https://b.example'', imageData = ''BB'',
                createdAt = ''2024-01-02T00:00:00.000Z''\<rparr>,
              ScreenshotItem_json \<lparr>ScreenshotItem.input = ''https://c.example'', imageData = ''CC'',
                createdAt = ''2024-01-01T00:00:00.000Z''\<rparr>])],
            quota = (\<lambda>m k v. True)\<rparr>)
   = [\<lparr>ScreenshotItem.input = ''https://a.example'', imageData = ''AA'',
        createdAt = ''2024-01-03T00:00:00.000Z''\<rparr>,
      \<lparr>ScreenshotItem.input = ''https://c.example'', imageData = ''CC'',
        createdAt = ''2024-01-01T00:00:00.000Z''\<rparr>]"
  using removeFromStorage_excises [of STORAGE_KEY
      "ScreenshotItem_schema (\<lambda>s. take 8 s = ''https://'') (\<lambda>s. length s = 24)"
      "\<lparr>entries = [STORAGE_KEY \<mapsto> JSON_stringify (JArr
             [ScreenshotItem_json \<lparr>ScreenshotItem.input = ''https://a.example'', imageData = ''AA'',
                createdAt = ''2024-01-03T00:00:00.000Z''\<rparr>,
              ScreenshotItem_json \<lparr>ScreenshotItem.input = ''https://b.example'', imageData = ''BB'',
                createdAt = ''2024-01-02T00:00:00.000Z''\<rparr>,
              ScreenshotItem_json \<lparr>ScreenshotItem.input = ''https://c.example'', imageData = ''CC'',
                createdAt = ''2024-01-01T00:00:00.000Z''\<rparr>])],
            quota = (\<lambda>m k v. True)\<rparr>"
      "[\<lparr>ScreenshotItem.input = ''https://a.example'', imageData = ''AA'',
          createdAt = ''2024-01-03T00:00:00.000Z''\<rparr>,
        \<lparr>ScreenshotItem.input = ''https://b.example'', imageData = ''BB'',
          createdAt = ''2024-01-02T00:00:00.000Z''\<rparr>,
        \<lparr>ScreenshotItem.input = ''https://c.example'', imageData = ''CC'',
          createdAt = ''2024-01-01T00:00:00.000Z''\<rparr>]"
      ScreenshotItem_json 1]
  by (simp add: getFromStorage_def getItem_def falsy_text_def JSON_stringify_def JSON_parse_def
      z_array_def ScreenshotItem_codec schema_valid_def ScreenshotItem_lossless
      written_ScreenshotItem_json)

text \<open>
  The stated claim fails for a stored sequence with an infinite number in it, which the
  validator accepts (the stored text has a numeral beyond the range of a double): the
  removal writes \<^verbatim>\<open>null\<close> in the number's place, and the read that follows finds the
  collection invalid and returns nothing.
\<close>

theorem removeFromStorage_infinite_number_counterexample:
  "fst (getFromStorage AGE_DETECTION_STORAGE_KEY
      (ageDetectionResultValidator (\<lambda>s. length s = 24))
      \<lparr>entries = [AGE_DETECTION_STORAGE_KEY \<mapsto> Stringified (JArr
           [JObj [(''age'', JStr ''34''), (''predictTime'', JNum Infinity),
                  (''imageData'', JStr ''AA''), (''createdAt'', JStr ''2024-01-02T00:00:00.000Z'')],
            JObj [(''age'', JStr ''35''), (''predictTime'', JNum (Finite 1)),
                  (''imageData'', JStr ''BB''), (''createdAt'', JStr ''2024-01-01T00:00:00.000Z'')]])],
        quota = (\<lambda>m k v. True)\<rparr>)
    = [\<lparr>AgeDetectionHistoryItem.age = Some (JStr ''34''), predictTime = Some (JNum Infinity),
         imageData = ''AA'', createdAt = ''2024-01-02T00:00:00.000Z''\<rparr>,
       \<lparr>AgeDetectionHistoryItem.age = Some (JStr ''35''), predictTime = Some (JNum (Finite 1)),
         imageData = ''BB'', createdAt = ''2024-01-01T00:00:00.000Z''\<rparr>] \<and>
   fst (removeFromStorage AgeDetectionHistoryItem_json AGE_DETECTION_STORAGE_KEY 1
      (ageDetectionResultValidator (\<lambda>s. length s = 24))
      \<lparr>entries = [AGE_DETECTION_STORAGE_KEY \<mapsto> Stringified (JArr
           [JObj [(''age'', JStr ''34''), (''predictTime'', JNum Infinity),
                  (''imageData'', JStr ''AA''), (''createdAt'', JStr ''2024-01-02T00:00:00.000Z'')],
            JObj [(''age'', JStr ''35''), (''predictTime'', JNum (Finite 1)),
                  (''imageData'', JStr ''BB''), (''createdAt'', JStr ''2024-01-01T00:00:00.000Z'')]])],
        quota = (\<lambda>m k v. True)\<rparr>)
    = [\<lparr>AgeDetectionHistoryItem.age = Some (JStr ''34''), predictTime = Some (JNum Infinity),
         imageData = ''AA'', createdAt = ''2024-01-02T00:00:00.000Z''\<rparr>] \<and>
   fst (getFromStorage AGE_DETECTION_STORAGE_KEY
      (ageDetectionResultValidator (\<lambda>s. length s = 24))
      (snd (removeFromStorage AgeDetectionHistoryItem_json AGE_DETECTION_STORAGE_KEY 1
         (ageDetectionResultValidator (\<lambda>s. length s = 24))
         \<lparr>entries = [AGE_DETECTION_STORAGE_KEY \<mapsto> Stringified (JArr
              [JObj [(''age'', JStr ''34''), (''predictTime'', JNum Infinity),
                     (''imageData'', JStr ''AA''), (''createdAt'', JStr ''2024-01-02T00:00:00.000Z'')],
               JObj [(''age'', JStr ''35''), (''predictTime'', JNum (Finite 1)),
                     (''imageData'', JStr ''BB''), (''createdAt'', JStr ''2024-01-01T00:00:00.000Z'')]])],
           quota = (\<lambda>m k v. True)\<rparr>)))
    = []"
  by (simp add: removeFromStorage_def getFromStorage_def getItem_def falsy_text_def setItem_def
      JSON_stringify_def JSON_parse_def ageDetectionResultValidator_def z_array_def
      AgeDetectionHistoryItem_json_def json_field_def AgeDetectionHistoryItem_schema_def
      z_field_def z_string_def z_number_def z_string_check_def slice_def slice_from_def
      relative_index_def Let_def)

text \<open>
  C9, as the code has it. Let a read of \<open>key\<close> return the records \<open>xs\<close>, all of them
  schema-valid and written without loss (no number in them is infinite). For an index
  at or beyond the length, and for an index below minus the length,
  \<open>removeFromStorage\<close> returns \<open>xs\<close> and the next read returns \<open>xs\<close>, whether the write is
  accepted or not.
\<close>

theorem removeFromStorage_out_of_range:
  assumes "fst (getFromStorage key (z_array schema) st) = xs"
      and "list_all (schema_valid toJSON schema) xs"
      and "list_all (lossless toJSON) xs"
      and "int (length xs) \<le> i \<or> i < - int (length xs)"
  shows "fst (removeFromStorage toJSON key i (z_array schema) st) = xs \<and>
         fst (getFromStorage key (z_array schema)
               (snd (removeFromStorage toJSON key i (z_array schema) st))) = xs"
proof -
  obtain st1 where rd: "getFromStorage key (z_array schema) st = (xs, st1)"
    using assms(1) by (cases "getFromStorage key (z_array schema) st") simp
  have new: "slice xs 0 i @ slice_from xs (i + 1) = xs"
    using assms(4) slice_beyond [of xs i] slice_below [of i xs] by auto
  have rd1: "getFromStorage key (z_array schema) st1 = (xs, st1)"
    using getFromStorage_idem [of key "z_array schema" st] rd by simp
  show ?thesis
  proof (cases "quota st1 (entries st1) key (JSON_stringify (JArr (map toJSON xs)))")
    case True
    have rm: "removeFromStorage toJSON key i (z_array schema) st =
           (xs, st1\<lparr>entries := (entries st1)(key \<mapsto> JSON_stringify (JArr (map toJSON xs)))\<rparr>)"
      using removeFromStorage_accepted [OF rd, of toJSON i] True new by simp
    have "getFromStorage key (z_array schema)
          (st1\<lparr>entries := (entries st1)(key \<mapsto> JSON_stringify (JArr (map toJSON xs)))\<rparr>)
        = (xs, st1\<lparr>entries := (entries st1)(key \<mapsto> JSON_stringify (JArr (map toJSON xs)))\<rparr>)"
      by (rule getFromStorage_stored [where toJSON = toJSON, OF _ assms(2,3)]) simp
    then show ?thesis by (simp add: rm)
  next
    case False
    then have "removeFromStorage toJSON key i (z_array schema) st = (xs, st1)"
      by (simp add: removeFromStorage_def setItem_def Let_def rd rd1 new del: map_append)
    then show ?thesis using rd1 by simp
  qed
qed

theorem removeFromStorage_out_of_range_witness:
  "fst (removeFromStorage ScreenshotItem_json STORAGE_KEY 2
          (z_array (ScreenshotItem_schema (\<lambda>s. take 8 s = ''https://'') (\<lambda>s. length s = 24)))
          \<lparr>entries = [STORAGE_KEY \<mapsto> JSON_stringify (JArr
             [ScreenshotItem_json \<lparr>ScreenshotItem.input = ''https://a.example'', imageData = ''AA'',
                createdAt = ''2024-01-03T00:00:00.000Z''\<rparr>,
              ScreenshotItem_json \<lparr>ScreenshotItem.input = ''https://b.example'', imageData = ''BB'',
                createdAt = ''2024-01-02T00:00:00.000Z''\<rparr>])],
            quota = (\<lambda>m k v. True)\<rparr>)
   = [\<lparr>ScreenshotItem.input = ''https://a.example'', imageData = ''AA'',
        createdAt = ''2024-01-03T00:00:00.000Z''\<rparr>,
      \<lparr>ScreenshotItem.input = ''https://b.example'', imageData = ''BB'',
        createdAt = ''2024-01-02T00:00:00.000Z''\<rparr>]"
  using removeFromStorage_out_of_range [of STORAGE_KEY
      "ScreenshotItem_schema (\<lambda>s. take 8 s = ''https://'') (\<lambda>s. length s = 24)"
      "\<lparr>entries = [STORAGE_KEY \<mapsto> JSON_stringify (JArr
             [ScreenshotItem_json \<lparr>ScreenshotItem.input = ''https://a.example'', imageData = ''AA'',
                createdAt = ''2024-01-03T00:00:00.000Z''\<rparr>,
              ScreenshotItem_json \<lparr>ScreenshotItem.input = ''https://b.example'', imageData = ''BB'',
                createdAt = ''2024-01-02T00:00:00.000Z''\<rparr>])],
            quota = (\<lambda>m k v. True)\<rparr>"
      "[\<lparr>ScreenshotItem.input = ''https://a.example'', imageData = ''AA'',
          createdAt = ''2024-01-03T00:00:00.000Z''\<rparr>,
        \<lparr>ScreenshotItem.input = ''https://b.example'', imageData = ''BB'',
          createdAt = ''2024-01-02T00:00:00.000Z''\<rparr>]"
      ScreenshotItem_json 2]
  by (simp add: getFromStorage_def getItem_def falsy_text_def JSON_stringify_def JSON_parse_def
      z_array_def ScreenshotItem_codec schema_valid_def ScreenshotItem_lossless
      written_ScreenshotItem_json)

text \<open>
  The stated claim fails for a negative index: \<open>slice\<close> counts it from the end. With two
  stored records, index \<open>-1\<close> returns (and persists) three, the first one twice. It
  also fails for an index beyond the length when a stored record has an infinite number:
  the sequence is returned intact but rewritten with \<^verbatim>\<open>null\<close> in the number's place,
  and the read that follows returns nothing.
\<close>

theorem removeFromStorage_out_of_range_counterexample:
  "removeFromStorage ScreenshotItem_json STORAGE_KEY (- 1)
      (screenshotValidator (\<lambda>s. True) (\<lambda>s. True))
      \<lparr>entries = [STORAGE_KEY \<mapsto> JSON_stringify (JArr
           [ScreenshotItem_json \<lparr>ScreenshotItem.input = ''a'', imageData = ''A'', createdAt = ''1''\<rparr>,
            ScreenshotItem_json \<lparr>ScreenshotItem.input = ''b'', imageData = ''B'', createdAt = ''2''\<rparr>])],
       quota = (\<lambda>m k v. True)\<rparr>
   = ([\<lparr>ScreenshotItem.input = ''a'', imageData = ''A'', createdAt = ''1''\<rparr>,
       \<lparr>ScreenshotItem.input = ''a'', imageData = ''A'', createdAt = ''1''\<rparr>,
       \<lparr>ScreenshotItem.input = ''b'', imageData = ''B'', createdAt = ''2''\<rparr>],
      \<lparr>entries = [STORAGE_KEY \<mapsto> JSON_stringify (JArr
           [ScreenshotItem_json \<lparr>ScreenshotItem.input = ''a'', imageData = ''A'', createdAt = ''1''\<rparr>,
            ScreenshotItem_json \<lparr>ScreenshotItem.input = ''a'', imageData = ''A'', createdAt = ''1''\<rparr>,
            ScreenshotItem_json \<lparr>ScreenshotItem.input = ''b'', imageData = ''B'', createdAt = ''2''\<rparr>])],
       quota = (\<lambda>m k v. True)\<rparr>) \<and>
   fst (removeFromStorage AgeDetectionHistoryItem_json AGE_DETECTION_STORAGE_KEY 1
      (ageDetectionResultValidator (\<lambda>s. length s = 24))
      \<lparr>entries = [AGE_DETECTION_STORAGE_KEY \<mapsto> Stringified (JArr
           [JObj [(''age'', JStr ''34''), (''predictTime'', JNum Infinity),
                  (''imageData'', JStr ''AA''), (''createdAt'', JStr ''2024-01-02T00:00:00.000Z'')]])],
        quota = (\<lambda>m k v. True)\<rparr>)
    = [\<lparr>AgeDetectionHistoryItem.age = Some (JStr ''34''), predictTime = Some (JNum Infinity),
         imageData = ''AA'', createdAt = ''2024-01-02T00:00:00.000Z''\<rparr>] \<and>
   fst (getFromStorage AGE_DETECTION_STORAGE_KEY
      (ageDetectionResultValidator (\<lambda>s. length s = 24))
      (snd (removeFromStorage AgeDetectionHistoryItem_json AGE_DETECTION_STORAGE_KEY 1
         (ageDetectionResultValidator (\<lambda>s. length s = 24))
         \<lparr>entries = [AGE_DETECTION_STORAGE_KEY \<mapsto> Stringified (JArr
              [JObj [(''age'', JStr ''34''), (''predictTime'', JNum Infinity),
                     (''imageData'', JStr ''AA''), (''createdAt'', JStr ''2024-01-02T00:00:00.000Z'')]])],
           quota = (\<lambda>m k v. True)\<rparr>)))
    = []"
  by (simp add: removeFromStorage_def getFromStorage_def getItem_def falsy_text_def
      JSON_stringify_def JSON_parse_def screenshotValidator_def z_array_def ScreenshotItem_codec
      written_ScreenshotItem_json setItem_def slice_def slice_from_def relative_index_def Let_def
      ageDetectionResultValidator_def AgeDetectionHistoryItem_json_def json_field_def
      AgeDetectionHistoryItem_schema_def z_field_def z_string_def z_number_def z_string_check_def)

section \<open>The upload and inference flows\<close>



text \<open>What a property access yields, and \<open>detectAge\<close> on a body that is an object.\<close>

lemma property_object:
  "(property (Some j) name = Inr (Some v)) = (\<exists>obj. j = JObj obj \<and> map_of obj name = Some v)"
  by (cases j) auto

lemma property_defined:
  "(\<exists>v. property w name = Inr v) = (w \<noteq> None \<and> w \<noteq> Some JNull)"
proof (cases w)
  case None
  then show ?thesis by simp
next
  case (Some j)
  then show ?thesis by (cases j) auto
qed

lemma detectAge_object:
  assumes "fetch (detection_request API_URL API_KEY imageUrl) = Inr response"
      and "ok response" and "payload response = Inr (JObj obj)"
  shows "detectAge API_URL API_KEY fetch ToString image_data imageUrl =
           (if map_of obj ''status'' \<noteq> Some (JStr ''succeeded'') \<or> truthy (map_of obj ''error'')
            then Inl (Error (or_else ToString (map_of obj ''error'') ''Detection failed''))
            else
              (case image_data of
                 None \<Rightarrow> Inl (Error ''Image data is missing'')
               | Some d \<Rightarrow>
                   if d = [] then Inl (Error ''Image data is missing'')
                   else
                     (case property (map_of obj ''metrics'') ''predict_time'' of
                        Inl err \<Rightarrow> Inl err
                      | Inr predict_time \<Rightarrow>
                          Inr \<lparr>AgeDetectionResult.age = map_of obj ''output'',
                               predictTime = predict_time, imageData = d\<rparr>)))"
  using assms by (simp add: detectAge_def split: option.splits)

lemma detectAge_success_object:
  assumes "detectAge API_URL API_KEY fetch ToString image_data imageUrl = Inr res"
  shows "\<exists>response obj. fetch (detection_request API_URL API_KEY imageUrl) = Inr response \<and>
           ok response \<and> payload response = Inr (JObj obj)"
proof -
  from assms obtain response data
    where r: "fetch (detection_request API_URL API_KEY imageUrl) = Inr response" "ok response"
      "payload response = Inr data"
      and st: "property (Some data) ''status'' = Inr (Some (JStr ''succeeded''))"
    by (auto simp: detectAge_def split: sum.splits if_splits option.splits)
  from st obtain obj where "data = JObj obj" by (auto simp: property_object)
  with r show ?thesis by blast
qed

text \<open>
  C5, as the code has it. With the page's image data present (\<open>processImage\<close> calls
  it so), \<open>detectAge\<close> returns a result exactly when the request is answered with a
  success status and a body that is an object whose \<open>status\<close> is \<open>succeeded\<close>, whose
  \<open>error\<close> is falsy (absent, null, the empty string) and whose \<open>metrics\<close> is present and
  not null; the result is then the body's \<open>output\<close> and \<open>metrics.predict_time\<close> with the
  image data. A non-success status throws an error with the status code in its message;
  an object with another \<open>status\<close> or a truthy \<open>error\<close> throws that error as text, or
  \<open>Detection failed\<close> when there is none; a succeeded body without \<open>metrics\<close> throws a
  \<open>TypeError\<close>.
\<close>

theorem detectAge_contract:
  "((detectAge API_URL API_KEY fetch ToString image_data imageUrl = Inr res) =
      (\<exists>response obj predict_time d.
         fetch (detection_request API_URL API_KEY imageUrl) = Inr response \<and> ok response \<and>
         payload response = Inr (JObj obj) \<and>
         map_of obj ''status'' = Some (JStr ''succeeded'') \<and>
         \<not> truthy (map_of obj ''error'') \<and>
         map_of obj ''metrics'' \<noteq> None \<and> map_of obj ''metrics'' \<noteq> Some JNull \<and>
         property (map_of obj ''metrics'') ''predict_time'' = Inr predict_time \<and>
         image_data = Some d \<and> d \<noteq> [] \<and>
         res = \<lparr>AgeDetectionResult.age = map_of obj ''output'',
                predictTime = predict_time, imageData = d\<rparr>)) \<and>
   (fetch (detection_request API_URL API_KEY imageUrl) = Inr response' \<and> \<not> ok response' \<longrightarrow>
      detectAge API_URL API_KEY fetch ToString image_data imageUrl =
        Inl (Error (''Detection failed: '' @ decimal (response.status response')))) \<and>
   (fetch (detection_request API_URL API_KEY imageUrl) = Inr response' \<and> ok response' \<and>
    payload response' = Inr (JObj obj') \<and>
    (map_of obj' ''status'' \<noteq> Some (JStr ''succeeded'') \<or> truthy (map_of obj' ''error'')) \<longrightarrow>
      detectAge API_URL API_KEY fetch ToString image_data imageUrl =
        Inl (Error (or_else ToString (map_of obj' ''error'') ''Detection failed''))) \<and>
   (fetch (detection_request API_URL API_KEY imageUrl) = Inr response' \<and> ok response' \<and>
    payload response' = Inr (JObj obj') \<and>
    map_of obj' ''status'' = Some (JStr ''succeeded'') \<and> \<not> truthy (map_of obj' ''error'') \<and>
    image_data = Some d' \<and> d' \<noteq> [] \<and>
    (map_of obj' ''metrics'' = None \<or> map_of obj' ''metrics'' = Some JNull) \<longrightarrow>
      (\<exists>msg. detectAge API_URL API_KEY fetch ToString image_data imageUrl = Inl (TypeError msg)))"
proof -
  have a: "(detectAge API_URL API_KEY fetch ToString image_data imageUrl = Inr res) =
      (\<exists>response obj predict_time d.
         fetch (detection_request API_URL API_KEY imageUrl) = Inr response \<and> ok response \<and>
         payload response = Inr (JObj obj) \<and>
         map_of obj ''status'' = Some (JStr ''succeeded'') \<and>
         \<not> truthy (map_of obj ''error'') \<and>
         map_of obj ''metrics'' \<noteq> None \<and> map_of obj ''metrics'' \<noteq> Some JNull \<and>
         property (map_of obj ''metrics'') ''predict_time'' = Inr predict_time \<and>
         image_data = Some d \<and> d \<noteq> [] \<and>
         res = \<lparr>AgeDetectionResult.age = map_of obj ''output'',
                predictTime = predict_time, imageData = d\<rparr>)"
    (is "?L = ?R")
  proof
    assume L: ?L
    then obtain response obj
      where r: "fetch (detection_request API_URL API_KEY imageUrl) = Inr response" "ok response"
        "payload response = Inr (JObj obj)"
      using detectAge_success_object by blast
    note obj = detectAge_object [where fetch = fetch and API_URL = API_URL and API_KEY = API_KEY
          and imageUrl = imageUrl, OF r, of ToString image_data]
    from L have c: "map_of obj ''status'' = Some (JStr ''succeeded'')"
        "\<not> truthy (map_of obj ''error'')"
      unfolding obj by (simp_all split: if_splits)
    with L obtain d where d: "image_data = Some d" "d \<noteq> []"
      unfolding obj by (auto split: option.splits if_splits)
    with L c obtain predict_time
      where p: "property (map_of obj ''metrics'') ''predict_time'' = Inr predict_time"
        and res: "res = \<lparr>AgeDetectionResult.age = map_of obj ''output'',
                predictTime = predict_time, imageData = d\<rparr>"
      unfolding obj by (auto split: sum.splits)
    from p have "map_of obj ''metrics'' \<noteq> None \<and> map_of obj ''metrics'' \<noteq> Some JNull"
      using property_defined [of "map_of obj ''metrics''" "''predict_time''"] by blast
    with r c p res d show ?R by blast
  next
    assume ?R
    then show ?L by (auto simp: detectAge_object)
  qed
  have b: "fetch (detection_request API_URL API_KEY imageUrl) = Inr response' \<and> \<not> ok response' \<longrightarrow>
      detectAge API_URL API_KEY fetch ToString image_data imageUrl =
        Inl (Error (''Detection failed: '' @ decimal (response.status response')))"
    by (simp add: detectAge_def)
  have c: "fetch (detection_request API_URL API_KEY imageUrl) = Inr response' \<and> ok response' \<and>
    payload response' = Inr (JObj obj') \<and>
    (map_of obj' ''status'' \<noteq> Some (JStr ''succeeded'') \<or> truthy (map_of obj' ''error'')) \<longrightarrow>
      detectAge API_URL API_KEY fetch ToString image_data imageUrl =
        Inl (Error (or_else ToString (map_of obj' ''error'') ''Detection failed''))"
    by (auto simp: detectAge_object)
  have d: "fetch (detection_request API_URL API_KEY imageUrl) = Inr response' \<and> ok response' \<and>
    payload response' = Inr (JObj obj') \<and>
    map_of obj' ''status'' = Some (JStr ''succeeded'') \<and> \<not> truthy (map_of obj' ''error'') \<and>
    image_data = Some d' \<and> d' \<noteq> [] \<and>
    (map_of obj' ''metrics'' = None \<or> map_of obj' ''metrics'' = Some JNull) \<longrightarrow>
      (\<exists>msg. detectAge API_URL API_KEY fetch ToString image_data imageUrl = Inl (TypeError msg))"
    by (auto simp: detectAge_object)
  from a b c d show ?thesis by blast
qed

theorem detectAge_contract_witness:
  "detectAge ''https://api.example'' ''key''
      (\<lambda>req. Inr \<lparr>response.status = 200, statusText = ''OK'',
                  payload = Inr (JObj [(''status'', JStr ''succeeded''), (''output'', JStr ''34''),
                                       (''error'', JNull),
                                       (''metrics'',
                                        JObj [(''predict_time'', JNum (Finite (12 / 10)))])])\<rparr>)
      (\<lambda>j. ''[object Object]'') (Some ''data:image/jpeg;base64,AA'') ''abc123''
    = Inr \<lparr>AgeDetectionResult.age = Some (JStr ''34''),
            predictTime = Some (JNum (Finite (12 / 10))),
            imageData = ''data:image/jpeg;base64,AA''\<rparr> \<and>
   detectAge ''https://api.example'' ''key''
      (\<lambda>req. Inr \<lparr>response.status = 200, statusText = ''OK'',
                  payload = Inr (JObj [(''status'', JStr ''failed''),
                                       (''error'', JStr ''no face'')])\<rparr>)
      (\<lambda>j. ''[object Object]'') (Some ''data:image/jpeg;base64,AA'') ''abc123''
    = Inl (Error ''no face'')"
  using detectAge_contract
      [where API_URL = "''https://api.example''" and API_KEY = "''key''"
         and fetch = "\<lambda>req. Inr \<lparr>response.status = 200, statusText = ''OK'',
                  payload = Inr (JObj [(''status'', JStr ''succeeded''), (''output'', JStr ''34''),
                                       (''error'', JNull),
                                       (''metrics'',
                                        JObj [(''predict_time'', JNum (Finite (12 / 10)))])])\<rparr>"
         and ToString = "\<lambda>j. ''[object Object]''"
         and image_data = "Some ''data:image/jpeg;base64,AA''" and imageUrl = "''abc123''"
         and res = "\<lparr>AgeDetectionResult.age = Some (JStr ''34''),
            predictTime = Some (JNum (Finite (12 / 10))),
            imageData = ''data:image/jpeg;base64,AA''\<rparr>"]
      detectAge_contract
      [where API_URL = "''https://api.example''" and API_KEY = "''key''"
         and fetch = "\<lambda>req. Inr \<lparr>response.status = 200, statusText = ''OK'',
                  payload = Inr (JObj [(''status'', JStr ''failed''),
                                       (''error'', JStr ''no face'')])\<rparr>"
         and ToString = "\<lambda>j. ''[object Object]''"
         and image_data = "Some ''data:image/jpeg;base64,AA''" and imageUrl = "''abc123''"
         and response' = "\<lparr>response.status = 200, statusText = ''OK'',
                  payload = Inr (JObj [(''status'', JStr ''failed''),
                                       (''error'', JStr ''no face'')])\<rparr>"
         and obj' = "[(''status'', JStr ''failed''), (''error'', JStr ''no face'')]"]
  by (simp add: ok_def or_else_def)

text \<open>
  The stated claim fails both ways. A body whose \<open>error\<close> is the empty string has the
  field present and not null, and \<open>detectAge\<close> succeeds; a succeeded body with no error
  and no \<open>metrics\<close> meets the three stated conditions, and \<open>detectAge\<close> throws.
\<close>

theorem detectAge_stated_contract_counterexample:
  "map_of [(''status'', JStr ''succeeded''), (''output'', JStr ''34''), (''error'', JStr []),
           (''metrics'', JObj [(''predict_time'', JNum (Finite (12 / 10)))])] ''error''
     = Some (JStr []) \<and>
   detectAge ''https://api.example'' ''key''
      (\<lambda>req. Inr \<lparr>response.status = 200, statusText = ''OK'',
                  payload = Inr (JObj [(''status'', JStr ''succeeded''), (''output'', JStr ''34''),
                                       (''error'', JStr []),
                                       (''metrics'',
                                        JObj [(''predict_time'', JNum (Finite (12 / 10)))])])\<rparr>)
      (\<lambda>j. ''[object Object]'') (Some ''data:image/jpeg;base64,AA'') ''abc123''
    = Inr \<lparr>AgeDetectionResult.age = Some (JStr ''34''),
            predictTime = Some (JNum (Finite (12 / 10))),
            imageData = ''data:image/jpeg;base64,AA''\<rparr> \<and>
   detectAge ''https://api.example'' ''key''
      (\<lambda>req. Inr \<lparr>response.status = 200, statusText = ''OK'',
                  payload = Inr (JObj [(''status'', JStr ''succeeded''), (''output'', JStr ''34''),
                                       (''error'', JNull)])\<rparr>)
      (\<lambda>j. ''[object Object]'') (Some ''data:image/jpeg;base64,AA'') ''abc123''
    = Inl (TypeError ''Cannot read properties of undefined'')"
  by (simp add: detectAge_def ok_def)

section \<open>The orchestrators and the store\<close>

lemma processImage_upload_failure:
  assumes "file page = Some f"
      and "\<not> falsy_string (AgeDetectionPage.imageData page)"
      and "falsy_string (uploadedImageUrl page)"
      and "uploadImage API_URL API_KEY fetchUpload f = Inl err"
  shows "processImage API_URL API_KEY fetchUpload fetchDetect ToString now is_datetime (page, st) =
           (page\<lparr>AgeDetectionPage.error := Some (message_or err ''Unknown error''),
                 processingState := ProcessingState.error\<rparr>, st)"
  using assms
  by (auto simp: processImage_def processImage_upload_def processImage_catch_def
      falsy_string_def Let_def split: option.splits)

lemma processImage_detection_failure:
  assumes "file page = Some f"
      and "\<not> falsy_string (AgeDetectionPage.imageData page)"
      and "if falsy_string (uploadedImageUrl page)
           then uploadImage API_URL API_KEY fetchUpload f = Inr u
           else uploadedImageUrl page = Some u"
      and "detectAge API_URL API_KEY fetchDetect ToString (AgeDetectionPage.imageData page) u = Inl err"
  shows "snd (processImage API_URL API_KEY fetchUpload fetchDetect ToString now is_datetime (page, st)) = st \<and>
         history (fst (processImage API_URL API_KEY fetchUpload fetchDetect ToString now is_datetime (page, st)))
           = history page \<and>
         processingState
           (fst (processImage API_URL API_KEY fetchUpload fetchDetect ToString now is_datetime (page, st)))
           = ProcessingState.error \<and>
         AgeDetectionPage.error
           (fst (processImage API_URL API_KEY fetchUpload fetchDetect ToString now is_datetime (page, st)))
           = Some (message_or err ''Unknown error'')"
  using assms
  by (auto simp: processImage_def processImage_upload_def processImage_catch_def
      falsy_string_def Let_def split: option.splits if_splits)

lemma processImage_storage_changed:
  assumes "snd (processImage API_URL API_KEY fetchUpload fetchDetect ToString now is_datetime (page, st)) \<noteq> st"
  shows "\<exists>u res. detectAge API_URL API_KEY fetchDetect ToString (AgeDetectionPage.imageData page) u = Inr res"
  using assms
  by (auto simp: processImage_def processImage_upload_def Let_def
      split: option.splits if_splits sum.splits prod.splits)

lemma captureScreenshot_failure:
  assumes "isValidUrl trim URL_parses (ScreenshotCapture.url page)"
      and "trim (apiKey page) \<noteq> []"
      and "fetch (screenshot_request API_URL URLSearchParams_toString page) = Inl err
           \<or> (\<exists>response. fetch (screenshot_request API_URL URLSearchParams_toString page) = Inr response
                 \<and> (\<not> ok response \<or> payload response = Inl err))"
  shows "snd (captureScreenshot API_URL fetch readAsDataURL URLSearchParams_toString trim URL_parses now
                is_url is_datetime (page, st)) = st \<and>
         items (fst (captureScreenshot API_URL fetch readAsDataURL URLSearchParams_toString
                       trim URL_parses now is_url is_datetime (page, st))) = items page \<and>
         screenshotState (fst (captureScreenshot API_URL fetch readAsDataURL
                       URLSearchParams_toString trim URL_parses now is_url is_datetime (page, st)))
           = ScreenshotState.error"
  using assms
  by (auto simp: captureScreenshot_def captureScreenshot_catch_def Let_def)

lemma captureScreenshot_storage_changed:
  assumes "snd (captureScreenshot API_URL fetch readAsDataURL URLSearchParams_toString trim URL_parses now
                is_url is_datetime (page, st)) \<noteq> st"
  shows "\<exists>response b. fetch (screenshot_request API_URL URLSearchParams_toString page) = Inr response
           \<and> ok response \<and> payload response = Inr b"
  using assms
  by (auto simp: captureScreenshot_def Let_def split: if_splits sum.splits prod.splits)

lemma processImage_success:
  assumes "file page = Some f"
      and "\<not> falsy_string (AgeDetectionPage.imageData page)"
      and "if falsy_string (uploadedImageUrl page)
           then uploadImage API_URL API_KEY fetchUpload f = Inr u
           else uploadedImageUrl page = Some u"
      and "detectAge API_URL API_KEY fetchDetect ToString (AgeDetectionPage.imageData page) u = Inr res"
  shows "hd (history (fst (processImage API_URL API_KEY fetchUpload fetchDetect ToString now is_datetime
                             (page, st))))
           = \<lparr>AgeDetectionHistoryItem.age = AgeDetectionResult.age res,
              predictTime = AgeDetectionResult.predictTime res,
              imageData = AgeDetectionResult.imageData res, createdAt = now\<rparr> \<and>
         AgeDetectionPage.result
           (fst (processImage API_URL API_KEY fetchUpload fetchDetect ToString now is_datetime (page, st)))
           = Some res \<and>
         processingState
           (fst (processImage API_URL API_KEY fetchUpload fetchDetect ToString now is_datetime (page, st)))
           = ProcessingState.success"
  using assms
  by (auto simp: processImage_def processImage_upload_def falsy_string_def Let_def
      saveToStorage_def split: option.splits if_splits sum.splits prod.splits)

text \<open>
  C6. No history record on a remote failure. When the upload fails, or the upload is
  done (or reused) and the detection fails, \<open>processImage\<close> ends in the error state with
  the storage and the history exactly as before; when the capture request is rejected,
  answered with a non-success status or its body cannot be read, \<open>captureScreenshot\<close>
  does the same. Conversely the storage changes only in a run whose detection
  (respectively capture) call has succeeded.
\<close>

theorem no_history_record_on_remote_failure:
  "(file page = Some f \<and> \<not> falsy_string (AgeDetectionPage.imageData page) \<and>
    falsy_string (uploadedImageUrl page) \<and>
    uploadImage API_URL API_KEY fetchUpload f = Inl err \<longrightarrow>
      processImage API_URL API_KEY fetchUpload fetchDetect ToString now is_datetime (page, st) =
        (page\<lparr>AgeDetectionPage.error := Some (message_or err ''Unknown error''),
              processingState := ProcessingState.error\<rparr>, st)) \<and>
   (file page = Some f \<and> \<not> falsy_string (AgeDetectionPage.imageData page) \<and>
    (if falsy_string (uploadedImageUrl page)
     then uploadImage API_URL API_KEY fetchUpload f = Inr u
     else uploadedImageUrl page = Some u) \<and>
    detectAge API_URL API_KEY fetchDetect ToString (AgeDetectionPage.imageData page) u = Inl err \<longrightarrow>
      snd (processImage API_URL API_KEY fetchUpload fetchDetect ToString now is_datetime (page, st)) = st \<and>
      history (fst (processImage API_URL API_KEY fetchUpload fetchDetect ToString now is_datetime (page, st)))
        = history page \<and>
      processingState
        (fst (processImage API_URL API_KEY fetchUpload fetchDetect ToString now is_datetime (page, st)))
        = ProcessingState.error) \<and>
   (snd (processImage API_URL API_KEY fetchUpload fetchDetect ToString now is_datetime (page, st)) \<noteq> st \<longrightarrow>
      (\<exists>u' res.
         detectAge API_URL API_KEY fetchDetect ToString (AgeDetectionPage.imageData page) u' = Inr res)) \<and>
   (isValidUrl trim URL_parses (ScreenshotCapture.url cpage) \<and> trim (apiKey cpage) \<noteq> [] \<and>
    (fetch (screenshot_request API_URL URLSearchParams_toString cpage) = Inl err
     \<or> (\<exists>response. fetch (screenshot_request API_URL URLSearchParams_toString cpage) = Inr response
           \<and> (\<not> ok response \<or> payload response = Inl err))) \<longrightarrow>
      snd (captureScreenshot API_URL fetch readAsDataURL URLSearchParams_toString trim URL_parses now
             is_url is_datetime (cpage, st)) = st \<and>
      items (fst (captureScreenshot API_URL fetch readAsDataURL URLSearchParams_toString
                    trim URL_parses now is_url is_datetime (cpage, st))) = items cpage \<and>
      screenshotState (fst (captureScreenshot API_URL fetch readAsDataURL
                    URLSearchParams_toString trim URL_parses now is_url is_datetime (cpage, st)))
        = ScreenshotState.error) \<and>
   (snd (captureScreenshot API_URL fetch readAsDataURL URLSearchParams_toString trim URL_parses now
           is_url is_datetime (cpage, st)) \<noteq> st \<longrightarrow>
      (\<exists>response b. fetch (screenshot_request API_URL URLSearchParams_toString cpage) = Inr response
           \<and> ok response \<and> payload response = Inr b))"
  using processImage_upload_failure
          [where page = page and f = f and API_URL = API_URL and API_KEY = API_KEY
             and fetchUpload = fetchUpload and err = err and fetchDetect = fetchDetect
             and ToString = ToString and now = now and is_datetime = is_datetime and st = st]
        processImage_detection_failure
          [where page = page and f = f and API_URL = API_URL and API_KEY = API_KEY
             and fetchUpload = fetchUpload and u = u and err = err and fetchDetect = fetchDetect
             and ToString = ToString and now = now and is_datetime = is_datetime and st = st]
        processImage_storage_changed
          [where page = page and API_URL = API_URL and API_KEY = API_KEY
             and fetchUpload = fetchUpload and fetchDetect = fetchDetect
             and ToString = ToString and now = now and is_datetime = is_datetime and st = st]
        captureScreenshot_failure
          [where page = cpage and fetch = fetch and API_URL = API_URL and err = err
             and URLSearchParams_toString = URLSearchParams_toString and trim = trim
             and URL_parses = URL_parses and readAsDataURL = readAsDataURL and now = now
             and is_url = is_url and is_datetime = is_datetime and st = st]
        captureScreenshot_storage_changed
          [where page = cpage and fetch = fetch and API_URL = API_URL
             and URLSearchParams_toString = URLSearchParams_toString and trim = trim
             and URL_parses = URL_parses and readAsDataURL = readAsDataURL and now = now
             and is_url = is_url and is_datetime = is_datetime and st = st]
  by blast

theorem no_history_record_on_remote_failure_witness:
  "processImage ''https://api.example'' ''key''
      (\<lambda>req. Inr \<lparr>response.status = 500, statusText = ''Internal Server Error'',
                  payload = Inl (SyntaxError ''Unexpected token'')\<rparr>)
      (\<lambda>req. Inl (TypeError ''Failed to fetch'')) (\<lambda>j. ''[object Object]'')
      ''2024-01-01T00:00:00.000Z'' (\<lambda>s. length s = 24)
      (\<lparr>file = Some ''bytes'', imageData = Some ''data:image/jpeg;base64,AA'',
         processingState = ProcessingState.idle, result = None, error = None,
         uploadedImageUrl = None, history = []\<rparr>,
       \<lparr>entries = Map.empty, quota = (\<lambda>m k v. True)\<rparr>)
    = (\<lparr>file = Some ''bytes'', imageData = Some ''data:image/jpeg;base64,AA'',
         processingState = ProcessingState.error, result = None,
         error = Some ''Upload failed: 500'',
         uploadedImageUrl = None, history = []\<rparr>,
       \<lparr>entries = Map.empty, quota = (\<lambda>m k v. True)\<rparr>)"
proof -
  have d500: "decimal 500 = ''500''"
    by (simp add: decimal.simps digit_def)
  have up: "uploadImage ''https://api.example'' ''key''
      (\<lambda>req. Inr \<lparr>response.status = 500, statusText = ''Internal Server Error'',
                  payload = Inl (SyntaxError ''Unexpected token'')\<rparr>) ''bytes''
     = Inl (Error ''Upload failed: 500'')"
    by (simp add: uploadImage_def ok_def d500)
  show ?thesis
    using up no_history_record_on_remote_failure
        [where page = "\<lparr>file = Some ''bytes'', imageData = Some ''data:image/jpeg;base64,AA'',
                 processingState = ProcessingState.idle, result = None, error = None,
                 uploadedImageUrl = None, history = []\<rparr>"
           and f = "''bytes''" and API_URL = "''https://api.example''" and API_KEY = "''key''"
           and fetchUpload = "\<lambda>req. Inr \<lparr>response.status = 500,
                  statusText = ''Internal Server Error'',
                  payload = Inl (SyntaxError ''Unexpected token'')\<rparr>"
           and err = "Error ''Upload failed: 500''"
           and fetchDetect = "\<lambda>req. Inl (TypeError ''Failed to fetch'')"
           and ToString = "\<lambda>j. ''[object Object]''"
           and now = "''2024-01-01T00:00:00.000Z''" and is_datetime = "\<lambda>s. length s = 24"
           and st = "\<lparr>entries = Map.empty, quota = (\<lambda>m k v. True)\<rparr>"]
    by (simp add: falsy_string_def)
qed

end
